theory Spec2Isabelle
  imports Main "HOL-Library.Sublist"
begin

section \<open>Productivity API: the Express application of index.js over a PostgreSQL store\<close>

text \<open>
  The application is a set of Express handlers over two tables, \<open>users\<close> and \<open>tasks\<close>.
  Its collaborators are libraries: \<open>jsonwebtoken\<close>, \<open>bcrypt\<close> and the PostgreSQL server
  reached through \<open>pg\<close>. The handlers are translated from index.js; the libraries are
  either parameters (signing, verification, hashing, the server's input conversions and
  clocks, collected in the record \<open>env\<close>) or, for the SQL statements the handlers send, a
  model of what PostgreSQL computes for them, with SQL's three-valued logic.
\<close>

subsection \<open>JavaScript values and strings\<close>

text \<open>
  A value that is a string or \<open>undefined\<close> (a header, a query parameter, a body field)
  is a \<open>string option\<close>. \<open>truthy\<close> is JavaScript's truthiness on such a value:
  \<open>undefined\<close> and the empty string are falsy.
\<close>

definition truthy :: "string option \<Rightarrow> bool" where
  "truthy v = (case v of None \<Rightarrow> False | Some s \<Rightarrow> s \<noteq> [])"

text \<open>\<open>String.prototype.split\<close> with a one-character separator.\<close>

fun split_str :: "char \<Rightarrow> string \<Rightarrow> string list" where
  "split_str c [] = [[]]"
| "split_str c (x # xs) =
     (if x = c then [] # split_str c xs
      else (case split_str c xs of [] \<Rightarrow> [[x]] | w # ws \<Rightarrow> (x # w) # ws))"

text \<open>Array indexing \<open>a[i]\<close>: \<open>undefined\<close> out of range.\<close>

fun index :: "'a list \<Rightarrow> nat \<Rightarrow> 'a option" where
  "index [] i = None"
| "index (x # xs) 0 = Some x"
| "index (x # xs) (Suc i) = index xs i"

text \<open>Decimal rendering of a number in a template string, \<open>`${n}`\<close>.\<close>

definition digit_char :: "nat \<Rightarrow> char" where
  "digit_char d = char_of (48 + d)"

fun show_nat :: "nat \<Rightarrow> string" where
  "show_nat n = (if n < 10 then [digit_char n] else show_nat (n div 10) @ [digit_char (n mod 10)])"

declare show_nat.simps [simp del]

text \<open>
  \<open>parseInt\<close> on the text of a \<open>COUNT(*)\<close>, which \<open>pg\<close> delivers as a string: the
  leading decimal digits are read, reading stops at the first character that is not a
  digit, and a text that does not start with a digit is \<open>NaN\<close>, here \<open>None\<close>. (Leading
  white space, a sign and the prefix \<open>0x\<close>, which \<open>parseInt\<close> also reads, do not occur
  in the text of a count and are not modelled.)
\<close>

definition is_digit :: "char \<Rightarrow> bool" where
  "is_digit c = ((48::nat) \<le> of_char c \<and> (of_char c :: nat) \<le> 57)"

definition digit_val :: "char \<Rightarrow> nat" where
  "digit_val c = (of_char c :: nat) - 48"

fun read_digits :: "nat \<Rightarrow> string \<Rightarrow> nat" where
  "read_digits acc [] = acc"
| "read_digits acc (c # cs) = (if is_digit c then read_digits (acc * 10 + digit_val c) cs else acc)"

definition parseInt :: "string \<Rightarrow> nat option" where
  "parseInt s = (case s of [] \<Rightarrow> None | c # cs \<Rightarrow> if is_digit c then Some (read_digits 0 s) else None)"

subsection \<open>Session tokens, requests and responses\<close>

text \<open>
  The payload of a token: \<open>jwt.sign({ user_id }, secret, { expiresIn })\<close> adds the
  issue time \<open>iat\<close> and the expiry \<open>exp\<close>, both in seconds.
\<close>

record jwt_payload =
  user_id :: int
  iat :: int
  exp :: int

text \<open>The rows of the two tables, with the column names the queries use.\<close>

record users_row =
  users_user_id :: int
  users_name :: "string option"
  users_email :: "string option"
  users_password :: string

record tasks_row =
  task_id :: int
  tasks_user_id :: int
  title :: "string option"
  description :: "string option"
  priority :: "string option"
  status :: "string option"
  deadline :: "int option"
  created_at :: int
  updated_at :: int

record database =
  users :: "users_row list"
  tasks :: "tasks_row list"
  next_user_id :: int
  next_task_id :: int

text \<open>Errors thrown inside a handler's \<open>try\<close> block, all answered with status 500.\<close>

datatype exn =
    Invalid_integer string
  | Invalid_text string
  | Invalid_timestamp string
  | Bcrypt_missing_argument
  | Invalid_timespan string
  | Syntax_error string
  | Undefined_table string
  | Undefined_column string
  | Parameter_mismatch
  | Type_mismatch string
  | Foreign_key_violation
  | TypeError_undefined
  | Not_a_number

text \<open>
  The parameters of the model: what the libraries and the server compute and the
  application only calls.
  \<^item> \<open>jwt_verify\<close>: \<open>jwt.verify(token, process.env.JWT_SECRET, cb)\<close>; \<open>None\<close> is the
    callback's \<open>err\<close> (bad signature, expired, malformed), \<open>Some\<close> the decoded payload;
  \<^item> \<open>jwt_encode\<close>: the signed compact serialisation of a payload under the secret;
  \<^item> \<open>bcrypt_compare\<close>: \<open>bcrypt.compare(password, hash)\<close>;
  \<^item> \<open>date_now\<close>: the application's clock in seconds, read by \<open>jwt.sign\<close>;
  \<^item> \<open>db_now\<close>: the server's \<open>NOW()\<close> / \<open>CURRENT_TIMESTAMP\<close>;
  \<^item> \<open>int4_in\<close>, \<open>timestamp_in\<close>: the server's input conversion of a text parameter
    bound to an integer or a timestamp column; \<open>None\<close> is its error;
  \<^item> \<open>lower_char\<close>: the lower-case form of one character (given as its bytes) under the
    locale of the database, which is what ILIKE folds with.
\<close>

record env =
  jwt_verify :: "string \<Rightarrow> jwt_payload option"
  jwt_encode :: "jwt_payload \<Rightarrow> string"
  bcrypt_compare :: "string \<Rightarrow> string \<Rightarrow> bool"
  date_now :: int
  db_now :: int
  int4_in :: "string \<Rightarrow> int option"
  timestamp_in :: "string \<Rightarrow> int option"
  lower_char :: "string \<Rightarrow> string"

text \<open>The routes registered on the application, with the \<open>:id\<close> route parameter.\<close>

datatype route =
    Post_login
  | Post_tasks
  | Get_tasks
  | Put_tasks_id string
  | Delete_tasks_id string
  | Get_dashboard_stats

text \<open>
  A request: the route it matched, the \<open>authorization\<close> header, the query string's
  \<open>status\<close>, \<open>priority\<close> and \<open>search\<close>, the fields of the JSON body (a field that is
  missing or \<open>null\<close> is \<open>None\<close>: \<open>pg\<close> binds both as SQL NULL), and \<open>req.user\<close>, which
  only the middleware sets.
\<close>

record request =
  req_route :: route
  authorization :: "string option"
  query_status :: "string option"
  query_priority :: "string option"
  query_search :: "string option"
  body_email :: "string option"
  body_password :: "string option"
  body_title :: "string option"
  body_description :: "string option"
  body_priority :: "string option"
  body_status :: "string option"
  body_deadline :: "string option"
  req_user :: "jwt_payload option"

record stats =
  totalTasks :: nat
  completedTasks :: nat
  pendingTasks :: nat
  highPriorityTasks :: nat
  overdueTasks :: nat

text \<open>
  A row of a query result: a row of one of the tables, or the single row of a
  \<open>SELECT COUNT(*)\<close> with its \<open>count\<close> field, a bigint that \<open>pg\<close> delivers as a string.
\<close>

datatype row = Task tasks_row | User users_row | Count string

datatype body =
    Status_text
  | Json_error string
  | Json_exn exn
  | Json_row "row option"
  | Json_rows "row list"
  | Json_token string
  | Json_message string
  | Json_stats stats
  | Unhandled exn

type_synonym response = "nat \<times> body"

text \<open>\<open>res.sendStatus(code)\<close>: the status with its standard reason phrase as the body.\<close>

definition sendStatus :: "nat \<Rightarrow> response" where
  "sendStatus code = (code, Status_text)"

text \<open>\<open>res.json(v)\<close> answers 200; \<open>res.status(code).json(v)\<close> answers \<open>code\<close>.\<close>

definition json :: "body \<Rightarrow> response" where
  "json b = (200, b)"

definition status_json :: "nat \<Rightarrow> body \<Rightarrow> response" where
  "status_json code b = (code, b)"

subsection \<open>The datastore: the SQL the handlers send\<close>

text \<open>
  A value of a column or a bound parameter. Timestamps are integers (a point on the
  server's time line).
\<close>

datatype sqlval = SNull | SInt int | SText string

text \<open>How \<open>pg\<close> binds a JavaScript string-or-undefined: \<open>undefined\<close> and \<open>null\<close> are NULL.\<close>

definition text_param :: "string option \<Rightarrow> sqlval" where
  "text_param v = (case v of None \<Rightarrow> SNull | Some s \<Rightarrow> SText s)"

datatype coltype = T_int | T_text | T_timestamp

text \<open>The columns of the two tables: declared type and the value in a row.\<close>

definition int_opt :: "int option \<Rightarrow> sqlval" where
  "int_opt v = (case v of None \<Rightarrow> SNull | Some i \<Rightarrow> SInt i)"

definition tasks_column :: "string \<Rightarrow> (coltype \<times> (tasks_row \<Rightarrow> sqlval)) option" where
  "tasks_column c =
     (if c = ''task_id'' then Some (T_int, \<lambda>r. SInt (task_id r))
      else if c = ''user_id'' then Some (T_int, \<lambda>r. SInt (tasks_user_id r))
      else if c = ''title'' then Some (T_text, \<lambda>r. text_param (title r))
      else if c = ''description'' then Some (T_text, \<lambda>r. text_param (description r))
      else if c = ''priority'' then Some (T_text, \<lambda>r. text_param (priority r))
      else if c = ''status'' then Some (T_text, \<lambda>r. text_param (status r))
      else if c = ''deadline'' then Some (T_timestamp, \<lambda>r. int_opt (deadline r))
      else if c = ''created_at'' then Some (T_timestamp, \<lambda>r. SInt (created_at r))
      else if c = ''updated_at'' then Some (T_timestamp, \<lambda>r. SInt (updated_at r))
      else None)"

definition users_column :: "string \<Rightarrow> (coltype \<times> (users_row \<Rightarrow> sqlval)) option" where
  "users_column c =
     (if c = ''user_id'' then Some (T_int, \<lambda>r. SInt (users_user_id r))
      else if c = ''name'' then Some (T_text, \<lambda>r. text_param (users_name r))
      else if c = ''email'' then Some (T_text, \<lambda>r. text_param (users_email r))
      else if c = ''password'' then Some (T_text, \<lambda>r. SText (users_password r))
      else None)"

subsubsection \<open>Text values\<close>

text \<open>
  A text is a string of bytes: the UTF-8 encoding of the JavaScript string, as \<open>pg\<close>
  sends it. The server reads a text character by character; the first byte of a
  character says how many bytes it has.
\<close>

definition utf8_len :: "char \<Rightarrow> nat" where
  "utf8_len c =
     (let b = (of_char c :: nat) in
      if b < 0x80 then 1
      else if b < 0xC0 then 1
      else if b < 0xE0 then 2
      else if b < 0xF0 then 3
      else if b < 0xF8 then 4
      else 1)"

fun utf8_chars :: "string \<Rightarrow> string list" where
  "utf8_chars [] = []"
| "utf8_chars (c # cs) =
     (c # take (utf8_len c - 1) cs) # utf8_chars (drop (utf8_len c - 1) cs)"

text \<open>
  The server refuses, when the parameters are bound, a text that contains the character
  U+0000 or that is not UTF-8. Of the rules of UTF-8 the check here has the shape of
  each character: a lead byte followed by as many continuation bytes as it announces.
\<close>

definition continuation :: "char \<Rightarrow> bool" where
  "continuation c = ((0x80::nat) \<le> of_char c \<and> (of_char c :: nat) < 0xC0)"

definition utf8_char_ok :: "string \<Rightarrow> bool" where
  "utf8_char_ok ch =
     (case ch of
        [] \<Rightarrow> False
      | c # cs \<Rightarrow>
          c \<noteq> CHR 0x00 \<and> \<not> continuation c \<and> (of_char c :: nat) < 0xF8
          \<and> length cs = utf8_len c - 1 \<and> list_all continuation cs)"

definition acceptable :: "string \<Rightarrow> bool" where
  "acceptable s = list_all utf8_char_ok (utf8_chars s)"

definition text_in :: "string \<Rightarrow> exn + string" where
  "text_in s = (if acceptable s then Inr s else Inl (Invalid_text s))"

text \<open>The first text of a list of parameters that the server refuses, if any.\<close>

fun refused :: "string option list \<Rightarrow> exn option" where
  "refused [] = None"
| "refused (None # vs) = refused vs"
| "refused (Some s # vs) = (if acceptable s then refused vs else Some (Invalid_text s))"

subsubsection \<open>Pattern matching: LIKE and ILIKE\<close>

text \<open>
  PostgreSQL's LIKE, on the characters of the pattern and of the text: in the pattern
  \<open>%\<close> matches any sequence of characters, \<open>_\<close> any single character, a backslash makes
  the next character literal, and any other character matches itself. (A pattern that
  ends in a lone backslash is an error in PostgreSQL when matching reaches it; here it
  matches nothing. The patterns of this application end in \<open>%\<close>.) ILIKE is LIKE after
  both sides are folded to lower case, character by character, under the database's
  locale.
\<close>

fun like_match :: "string list \<Rightarrow> string list \<Rightarrow> bool" where
  "like_match [] t = (t = [])"
| "like_match (p # ps) t =
     (if p = ''%'' then
        (like_match ps t \<or> (case t of [] \<Rightarrow> False | c # cs \<Rightarrow> like_match (p # ps) cs))
      else if p = ''_'' then
        (case t of [] \<Rightarrow> False | c # cs \<Rightarrow> like_match ps cs)
      else if p = [CHR 0x5C] then
        (case ps of
           [] \<Rightarrow> False
         | q # qs \<Rightarrow> (case t of [] \<Rightarrow> False | c # cs \<Rightarrow> c = q \<and> like_match qs cs))
      else (case t of [] \<Rightarrow> False | c # cs \<Rightarrow> c = p \<and> like_match ps cs))"

text \<open>A text as the list of its characters, each folded to lower case.\<close>

definition fold_case :: "env \<Rightarrow> string \<Rightarrow> string list" where
  "fold_case e s = map (lower_char e) (utf8_chars s)"

definition ilike :: "env \<Rightarrow> string \<Rightarrow> string \<Rightarrow> bool" where
  "ilike e t pattern = like_match (fold_case e pattern) (fold_case e t)"

subsubsection \<open>Reading a SELECT statement\<close>

datatype token = Word string | LParen | RParen | StrLit string | Unterminated

definition flush :: "string \<Rightarrow> token list" where
  "flush buf = (if buf = [] then [] else [Word buf])"

definition is_space :: "char \<Rightarrow> bool" where
  "is_space c = (c = CHR '' '' \<or> c = CHR 0x0A \<or> c = CHR 0x09 \<or> c = CHR 0x0D)"

text \<open>
  The lexer, for statements laid out as the handlers write them: words (keywords, names,
  operators, parameters) are separated by white space and parentheses; a string literal
  runs from one single quote to the next. The flag says whether a literal is open, the
  buffer holds the characters of the word or literal being read.
\<close>

fun lex :: "bool \<Rightarrow> string \<Rightarrow> string \<Rightarrow> token list" where
  "lex quoted buf [] = (if quoted then [Unterminated] else flush buf)"
| "lex quoted buf (c # cs) =
     (if quoted then
        (if c = CHR 0x27 then StrLit buf # lex False [] cs else lex True (buf @ [c]) cs)
      else if c = CHR 0x27 then flush buf @ lex True [] cs
      else if is_space c then flush buf @ lex False [] cs
      else if c = CHR ''('' then flush buf @ LParen # lex False [] cs
      else if c = CHR '')'' then flush buf @ RParen # lex False [] cs
      else lex False (buf @ [c]) cs)"

datatype operand = Param nat | Lit string | Now

datatype cmp = Op_eq | Op_ne | Op_lt | Op_ilike

datatype atom = Atom string cmp operand

text \<open>A condition is a conjunction of disjunctions of comparisons.\<close>

type_synonym cond = "atom list list"

datatype target = Star | Count_star

text \<open>A positional parameter \<open>$n\<close>.\<close>

definition placeholder :: "string \<Rightarrow> nat option" where
  "placeholder w =
     (case w of
        [] \<Rightarrow> None
      | c # ds \<Rightarrow> if c = CHR ''$'' \<and> ds \<noteq> [] \<and> list_all is_digit ds
                 then Some (read_digits 0 ds) else None)"

definition cmp_of :: "string \<Rightarrow> cmp option" where
  "cmp_of w =
     (if w = ''='' then Some Op_eq
      else if w = ''!='' then Some Op_ne
      else if w = ''<'' then Some Op_lt
      else if w = ''ILIKE'' then Some Op_ilike
      else None)"

fun parse_operand :: "token list \<Rightarrow> (operand \<times> token list) option" where
  "parse_operand (StrLit s # ts) = Some (Lit s, ts)"
| "parse_operand (Word w # ts) =
     (if w = ''NOW'' then
        (case ts of LParen # RParen # ts' \<Rightarrow> Some (Now, ts') | _ \<Rightarrow> None)
      else (case placeholder w of None \<Rightarrow> None | Some n \<Rightarrow> Some (Param n, ts)))"
| "parse_operand _ = None"

fun parse_atom :: "token list \<Rightarrow> (atom \<times> token list) option" where
  "parse_atom (Word c # Word opr # ts) =
     (case cmp_of opr of
        None \<Rightarrow> None
      | Some opc \<Rightarrow>
          (case parse_operand ts of None \<Rightarrow> None | Some (v, r) \<Rightarrow> Some (Atom c opc v, r)))"
| "parse_atom _ = None"

text \<open>The rest of a parenthesised group: comparisons joined by OR up to the closing parenthesis.\<close>

function parse_disj :: "token list \<Rightarrow> (atom list \<times> token list) option" where
  "parse_disj ts =
     (case parse_atom ts of
        None \<Rightarrow> None
      | Some (a, r) \<Rightarrow>
          (case r of
             RParen # r' \<Rightarrow> Some ([a], r')
           | Word w # r' \<Rightarrow>
               if w = ''OR'' then
                 (case parse_disj r' of None \<Rightarrow> None | Some (as, r'') \<Rightarrow> Some (a # as, r''))
               else None
           | _ \<Rightarrow> None))"
  by pat_completeness auto

termination parse_disj
proof (relation "measure length")
  show "wf (measure length)" by simp
next
  fix ts :: "token list" and x2 x y x21 x22 x1
  assume a: "parse_atom ts = Some x2" "(x, y) = x2" "y = x21 # x22" "x21 = Word x1" "x1 = ''OR''"
  have op: "\<And>us v r. parse_operand us = Some (v, r) \<Longrightarrow> length r < length us"
  proof -
    fix us :: "token list" and v r
    assume "parse_operand us = Some (v, r)"
    then show "length r < length us"
      by (cases us rule: parse_operand.cases)
         (auto split: if_splits list.splits token.splits option.splits)
  qed
  have "length y < length ts"
    using a(1,2)
    by (cases ts rule: parse_atom.cases) (auto split: option.splits dest!: op)
  with a show "(x22, ts) \<in> measure length" by simp
qed

declare parse_disj.simps [simp del]

text \<open>One conjunct: a parenthesised group or a single comparison.\<close>

definition parse_term :: "token list \<Rightarrow> (atom list \<times> token list) option" where
  "parse_term ts =
     (case ts of
        LParen # r \<Rightarrow> parse_disj r
      | _ \<Rightarrow> (case parse_atom ts of None \<Rightarrow> None | Some (a, r) \<Rightarrow> Some ([a], r)))"

function parse_conj :: "token list \<Rightarrow> cond option" where
  "parse_conj ts =
     (case parse_term ts of
        None \<Rightarrow> None
      | Some (d, r) \<Rightarrow>
          (case r of
             [] \<Rightarrow> Some [d]
           | Word w # r' \<Rightarrow>
               if w = ''AND'' then
                 (case parse_conj r' of None \<Rightarrow> None | Some ds \<Rightarrow> Some (d # ds))
               else None
           | _ \<Rightarrow> None))"
  by pat_completeness auto

lemma parse_operand_consumes: "parse_operand us = Some (v, r) \<Longrightarrow> length r < length us"
  by (cases us rule: parse_operand.cases)
     (auto split: if_splits list.splits token.splits option.splits)

lemma parse_atom_consumes: "parse_atom us = Some (b, r) \<Longrightarrow> length r < length us"
  by (cases us rule: parse_atom.cases)
     (auto split: option.splits dest!: parse_operand_consumes)

lemma parse_disj_consumes: "parse_disj us = Some (bs, r) \<Longrightarrow> length r < length us"
proof (induction us arbitrary: bs r rule: parse_disj.induct)
  case (1 ts)
  from "1.prems" obtain a r0 where pa: "parse_atom ts = Some (a, r0)"
    by (subst (asm) parse_disj.simps) (auto split: option.splits)
  from parse_atom_consumes[OF pa] have l0: "length r0 < length ts" .
  show ?case
  proof (cases r0)
    case Nil
    with pa "1.prems" show ?thesis by (subst (asm) parse_disj.simps) simp
  next
    case (Cons t r')
    show ?thesis
    proof (cases t)
      case (Word w)
      show ?thesis
      proof (cases "w = ''OR''")
        case True
        with Word Cons pa "1.prems" obtain as r'' where
          pd: "parse_disj r' = Some (as, r'')" and rr: "r = r''"
          by (subst (asm) parse_disj.simps) (auto split: option.splits)
        have "length r'' < length r'"
          using "1.IH"[OF pa refl Cons Word True pd] .
        with l0 Cons rr show ?thesis by simp
      next
        case False
        with Word Cons pa "1.prems" show ?thesis by (subst (asm) parse_disj.simps) simp
      qed
    next
      case RParen
      with Cons pa "1.prems" l0 show ?thesis by (subst (asm) parse_disj.simps) auto
    qed (use Cons pa "1.prems" in \<open>subst (asm) parse_disj.simps, simp\<close>)+
  qed
qed

termination parse_conj
proof (relation "measure length")
  show "wf (measure length)" by simp
next
  fix ts :: "token list" and x2 x y x21 x22 x1
  assume a: "parse_term ts = Some x2" "(x, y) = x2" "y = x21 # x22" "x21 = Word x1" "x1 = ''AND''"
  have "length y < length ts"
    using a(1,2)
    by (auto simp: parse_term_def split: list.splits token.splits option.splits
             dest!: parse_atom_consumes parse_disj_consumes)
  with a show "(x22, ts) \<in> measure length" by simp
qed

declare parse_conj.simps [simp del]

definition parse_target :: "token list \<Rightarrow> (target \<times> token list) option" where
  "parse_target ts =
     (case ts of
        Word w # r \<Rightarrow>
          if w = ''*'' then Some (Star, r)
          else if w = ''COUNT'' then
            (case r of
               LParen # Word a # RParen # r' \<Rightarrow> if a = ''*'' then Some (Count_star, r') else None
             | _ \<Rightarrow> None)
          else None
      | _ \<Rightarrow> None)"

text \<open>\<open>SELECT target FROM table WHERE condition\<close>.\<close>

definition parse_select :: "string \<Rightarrow> (target \<times> string \<times> cond) option" where
  "parse_select text =
     (case lex False [] text of
        Word s # ts \<Rightarrow>
          if s = ''SELECT'' then
            (case parse_target ts of
               Some (tg, Word f # Word tbl # Word w # cs) \<Rightarrow>
                 if f = ''FROM'' \<and> w = ''WHERE'' then
                   (case parse_conj cs of None \<Rightarrow> None | Some c \<Rightarrow> Some (tg, tbl, c))
                 else None
             | _ \<Rightarrow> None)
          else None
      | _ \<Rightarrow> None)"

subsubsection \<open>Running a SELECT statement\<close>

text \<open>
  The server's input conversion of a text value for a column of the given type.
\<close>

definition convert :: "env \<Rightarrow> coltype \<Rightarrow> string \<Rightarrow> exn + sqlval" where
  "convert e ty s =
     (case ty of
        T_text \<Rightarrow> (case text_in s of Inl x \<Rightarrow> Inl x | Inr t \<Rightarrow> Inr (SText t))
      | T_int \<Rightarrow> (case int4_in e s of None \<Rightarrow> Inl (Invalid_integer s) | Some i \<Rightarrow> Inr (SInt i))
      | T_timestamp \<Rightarrow>
          (case timestamp_in e s of None \<Rightarrow> Inl (Invalid_timestamp s) | Some t \<Rightarrow> Inr (SInt t)))"

text \<open>
  The value of an operand compared with a column of type \<open>ty\<close>. A parameter takes the
  column's type: a string is converted, a number is accepted for an integer column (a
  number bound to another column does not occur in this application and is refused).
\<close>

definition bind_operand :: "env \<Rightarrow> sqlval list \<Rightarrow> coltype \<Rightarrow> operand \<Rightarrow> exn + sqlval" where
  "bind_operand e params ty v =
     (case v of
        Now \<Rightarrow> if ty = T_timestamp then Inr (SInt (db_now e)) else Inl (Type_mismatch ''NOW()'')
      | Lit s \<Rightarrow> convert e ty s
      | Param n \<Rightarrow>
          (case (if n = 0 then None else index params (n - 1)) of
             None \<Rightarrow> Inl Parameter_mismatch
           | Some SNull \<Rightarrow> Inr SNull
           | Some (SInt i) \<Rightarrow> if ty = T_int then Inr (SInt i) else Inl (Type_mismatch ''integer'')
           | Some (SText s) \<Rightarrow> convert e ty s))"

text \<open>
  A comparison in three-valued logic: \<open>None\<close> is SQL's unknown, the value of every
  comparison with NULL.
\<close>

fun sql_compare :: "env \<Rightarrow> cmp \<Rightarrow> sqlval \<Rightarrow> sqlval \<Rightarrow> bool option" where
  "sql_compare e opc SNull w = None"
| "sql_compare e opc v SNull = None"
| "sql_compare e Op_eq v w = Some (v = w)"
| "sql_compare e Op_ne v w = Some (v \<noteq> w)"
| "sql_compare e Op_lt (SInt a) (SInt b) = Some (a < b)"
| "sql_compare e Op_lt v w = None"
| "sql_compare e Op_ilike (SText t) (SText p) = Some (ilike e t p)"
| "sql_compare e Op_ilike v w = None"

text \<open>
  A comparison bound to the parameters: a predicate on rows. \<open>cols\<close> are the columns of
  the table. ILIKE is for text columns; \<open><\<close> on text (a collation order) is not in the
  model.
\<close>

definition bind_atom ::
  "(string \<Rightarrow> (coltype \<times> ('r \<Rightarrow> sqlval)) option) \<Rightarrow> env \<Rightarrow> sqlval list \<Rightarrow> atom
     \<Rightarrow> exn + ('r \<Rightarrow> bool option)" where
  "bind_atom cols e params a =
     (case a of Atom c opc v \<Rightarrow>
        (case cols c of
           None \<Rightarrow> Inl (Undefined_column c)
         | Some (ty, get) \<Rightarrow>
             if (opc = Op_ilike \<and> ty \<noteq> T_text) \<or> (opc = Op_lt \<and> ty = T_text)
             then Inl (Type_mismatch c)
             else (case bind_operand e params ty v of
                     Inl x \<Rightarrow> Inl x
                   | Inr w \<Rightarrow> Inr (\<lambda>r. sql_compare e opc (get r) w))))"

text \<open>All results of a list, or its first error.\<close>

fun sequence :: "('e + 'a) list \<Rightarrow> 'e + 'a list" where
  "sequence [] = Inr []"
| "sequence (x # xs) =
     (case x of
        Inl err \<Rightarrow> Inl err
      | Inr v \<Rightarrow> (case sequence xs of Inl err \<Rightarrow> Inl err | Inr vs \<Rightarrow> Inr (v # vs)))"

definition bind_cond ::
  "(string \<Rightarrow> (coltype \<times> ('r \<Rightarrow> sqlval)) option) \<Rightarrow> env \<Rightarrow> sqlval list \<Rightarrow> cond
     \<Rightarrow> exn + ('r \<Rightarrow> bool option) list list" where
  "bind_cond cols e params c =
     sequence (map (\<lambda>d. sequence (map (bind_atom cols e params) d)) c)"

definition or3 :: "bool option list \<Rightarrow> bool option" where
  "or3 vs = (if Some True \<in> set vs then Some True else if None \<in> set vs then None else Some False)"

definition and3 :: "bool option list \<Rightarrow> bool option" where
  "and3 vs = (if Some False \<in> set vs then Some False else if None \<in> set vs then None else Some True)"

definition holds :: "('r \<Rightarrow> bool option) list list \<Rightarrow> 'r \<Rightarrow> bool option" where
  "holds bc r = and3 (map (\<lambda>d. or3 (map (\<lambda>f. f r) d)) bc)"

text \<open>
  The statement needs the parameters \<open>$1 .. $n\<close> for the highest \<open>n\<close> it names, each
  of them named somewhere, and exactly \<open>n\<close> values must be bound.
\<close>

fun operand_params :: "operand \<Rightarrow> nat list" where
  "operand_params (Param n) = [n]"
| "operand_params v = []"

fun atom_params :: "atom \<Rightarrow> nat list" where
  "atom_params (Atom c opc v) = operand_params v"

definition cond_params :: "cond \<Rightarrow> nat list" where
  "cond_params c = concat (map (\<lambda>d. concat (map atom_params d)) c)"

definition params_ok :: "cond \<Rightarrow> sqlval list \<Rightarrow> bool" where
  "params_ok c params =
     (list_all (\<lambda>n. 1 \<le> n \<and> n \<le> length params) (cond_params c) \<and>
      list_all (\<lambda>n. n \<in> set (cond_params c)) [1 ..< Suc (length params)])"

text \<open>The rows of a table that a condition keeps: those on which it is true.\<close>

definition run_select ::
  "(string \<Rightarrow> (coltype \<times> ('r \<Rightarrow> sqlval)) option) \<Rightarrow> env \<Rightarrow> cond \<Rightarrow> sqlval list \<Rightarrow> 'r list
     \<Rightarrow> exn + 'r list" where
  "run_select cols e c params rows =
     (if \<not> params_ok c params then Inl Parameter_mismatch
      else (case bind_cond cols e params c of
              Inl x \<Rightarrow> Inl x
            | Inr bc \<Rightarrow> Inr (filter (\<lambda>r. holds bc r = Some True) rows)))"

definition project :: "target \<Rightarrow> ('r \<Rightarrow> row) \<Rightarrow> 'r list \<Rightarrow> row list" where
  "project tg mk rows =
     (case tg of Star \<Rightarrow> map mk rows | Count_star \<Rightarrow> [Count (show_nat (length rows))])"

text \<open>\<open>db.query(text, params)\<close> for a SELECT statement; the store is only read.\<close>

definition db_select :: "env \<Rightarrow> string \<Rightarrow> sqlval list \<Rightarrow> database \<Rightarrow> exn + row list" where
  "db_select e text params db =
     (case parse_select text of
        None \<Rightarrow> Inl (Syntax_error text)
      | Some (tg, tbl, c) \<Rightarrow>
          if tbl = ''tasks'' then
            (case run_select tasks_column e c params (tasks db) of
               Inl x \<Rightarrow> Inl x
             | Inr rows \<Rightarrow> Inr (project tg Task rows))
          else if tbl = ''users'' then
            (case run_select users_column e c params (users db) of
               Inl x \<Rightarrow> Inl x
             | Inr rows \<Rightarrow> Inr (project tg User rows))
          else Inl (Undefined_table tbl))"

subsubsection \<open>The statements that write\<close>

text \<open>A timestamp parameter: NULL, or a text the server converts.\<close>

definition timestamp_param :: "env \<Rightarrow> string option \<Rightarrow> exn + int option" where
  "timestamp_param e v =
     (case v of
        None \<Rightarrow> Inr None
      | Some s \<Rightarrow>
          (case timestamp_in e s of None \<Rightarrow> Inl (Invalid_timestamp s) | Some t \<Rightarrow> Inr (Some t)))"

text \<open>
  \<^verbatim>\<open>INSERT INTO tasks (user_id, title, description, priority, deadline)
  VALUES ($1, $2, $3, $4, $5) RETURNING *\<close>
  The columns the statement does not name take their defaults: the next identifier of
  the sequence, status \<open>Pending\<close>, and the current time for both timestamps. The owner
  must be a row of \<open>users\<close> (the foreign key); the sequence has advanced by then. The
  parameters are bound first: a text or a deadline that the server refuses ends the
  statement before it touches the table. Other constraints of the table (the schema is
  not among the sources) are not modelled.
\<close>

definition insert_task ::
  "env \<Rightarrow> int \<Rightarrow> string option \<Rightarrow> string option \<Rightarrow> string option \<Rightarrow> string option \<Rightarrow> database
     \<Rightarrow> (exn + row list) \<times> database" where
  "insert_task e uid p_title p_description p_priority p_deadline db =
     (case refused [p_title, p_description, p_priority] of
        Some x \<Rightarrow> (Inl x, db)
      | None \<Rightarrow>
     (case timestamp_param e p_deadline of
        Inl x \<Rightarrow> (Inl x, db)
      | Inr dl \<Rightarrow>
          (let r = \<lparr>task_id = next_task_id db, tasks_user_id = uid, title = p_title,
                     description = p_description, priority = p_priority,
                     status = Some ''Pending'', deadline = dl,
                     created_at = db_now e, updated_at = db_now e\<rparr>;
               db' = db\<lparr>next_task_id := next_task_id db + 1\<rparr>
           in if list_ex (\<lambda>u. users_user_id u = uid) (users db)
              then (Inr [Task r], db'\<lparr>tasks := tasks db @ [r]\<rparr>)
              else (Inl Foreign_key_violation, db'))))"

text \<open>\<open>COALESCE(p, old)\<close>: the first of the two that is not NULL.\<close>

definition coalesce :: "'a option \<Rightarrow> 'a option \<Rightarrow> 'a option" where
  "coalesce p old = (case p of None \<Rightarrow> old | Some v \<Rightarrow> Some v)"

text \<open>
  \<^verbatim>\<open>UPDATE tasks
  SET title = COALESCE($1, title), description = COALESCE($2, description),
      priority = COALESCE($3, priority), status = COALESCE($4, status),
      deadline = COALESCE($5, deadline), updated_at = CURRENT_TIMESTAMP
  WHERE task_id = $6 AND user_id = $7 RETURNING *\<close>
  \<open>$6\<close> is the route parameter, a string the server converts to an integer. The
  parameters are bound first, whether or not a row will be hit: a text, a deadline or an
  identifier that the server refuses ends the statement before it touches the table.
\<close>

definition update_task ::
  "env \<Rightarrow> string option \<Rightarrow> string option \<Rightarrow> string option \<Rightarrow> string option \<Rightarrow> string option
     \<Rightarrow> string \<Rightarrow> int \<Rightarrow> database \<Rightarrow> (exn + row list) \<times> database" where
  "update_task e p_title p_description p_priority p_status p_deadline p_id uid db =
     (case refused [p_title, p_description, p_priority, p_status] of
        Some x \<Rightarrow> (Inl x, db)
      | None \<Rightarrow>
     (case timestamp_param e p_deadline of
        Inl x \<Rightarrow> (Inl x, db)
      | Inr dl \<Rightarrow>
          (case int4_in e p_id of
             None \<Rightarrow> (Inl (Invalid_integer p_id), db)
           | Some n \<Rightarrow>
               (let hit = (\<lambda>r. task_id r = n \<and> tasks_user_id r = uid);
                    upd = (\<lambda>r. r\<lparr>title := coalesce p_title (title r),
                                   description := coalesce p_description (description r),
                                   priority := coalesce p_priority (priority r),
                                   status := coalesce p_status (status r),
                                   deadline := coalesce dl (deadline r),
                                   updated_at := db_now e\<rparr>)
                in (Inr (map (\<lambda>r. Task (upd r)) (filter hit (tasks db))),
                    db\<lparr>tasks := map (\<lambda>r. if hit r then upd r else r) (tasks db)\<rparr>)))))"

text \<open>\<^verbatim>\<open>DELETE FROM tasks WHERE task_id = $1 AND user_id = $2 RETURNING *\<close>\<close>

definition delete_task :: "env \<Rightarrow> string \<Rightarrow> int \<Rightarrow> database \<Rightarrow> (exn + row list) \<times> database" where
  "delete_task e p_id uid db =
     (case int4_in e p_id of
        None \<Rightarrow> (Inl (Invalid_integer p_id), db)
      | Some n \<Rightarrow>
          (let hit = (\<lambda>r. task_id r = n \<and> tasks_user_id r = uid)
           in (Inr (map Task (filter hit (tasks db))),
               db\<lparr>tasks := filter (\<lambda>r. \<not> hit r) (tasks db)\<rparr>)))"

subsection \<open>The libraries jsonwebtoken and bcrypt\<close>

text \<open>
  The \<open>expiresIn\<close> option as a number of seconds: digits and one of the units
  \<open>s\<close>, \<open>m\<close>, \<open>h\<close>, \<open>d\<close>.
\<close>

definition timespan :: "string \<Rightarrow> int option" where
  "timespan s =
     (let ds = takeWhile is_digit s; u = dropWhile is_digit s; n = int (read_digits 0 ds) in
      if ds = [] then None
      else if u = ''s'' then Some n
      else if u = ''m'' then Some (60 * n)
      else if u = ''h'' then Some (3600 * n)
      else if u = ''d'' then Some (86400 * n)
      else None)"

text \<open>
  \<open>jwt.sign({ user_id: uid }, process.env.JWT_SECRET, { expiresIn })\<close>: the payload is
  stamped with the issue time and the expiry, then signed.
\<close>

definition jwt_sign :: "env \<Rightarrow> int \<Rightarrow> string \<Rightarrow> exn + string" where
  "jwt_sign e uid expiresIn =
     (case timespan expiresIn of
        None \<Rightarrow> Inl (Invalid_timespan expiresIn)
      | Some d \<Rightarrow> Inr (jwt_encode e \<lparr>user_id = uid, iat = date_now e, exp = date_now e + d\<rparr>))"

text \<open>\<open>bcrypt.compare(data, hash)\<close> rejects when the data is \<open>undefined\<close>.\<close>

definition compare_password :: "env \<Rightarrow> string option \<Rightarrow> string \<Rightarrow> exn + bool" where
  "compare_password e password hash =
     (case password of
        None \<Rightarrow> Inl Bcrypt_missing_argument
      | Some p \<Rightarrow> Inr (bcrypt_compare e p hash))"

subsection \<open>The middleware authenticateToken\<close>

text \<open>
  \<open>token = authHeader && authHeader.split(' ')[1]\<close>: a falsy header is the token itself
  (and falsy); otherwise the second piece of the header split at spaces, or \<open>undefined\<close>.
\<close>

definition extract_token :: "string option \<Rightarrow> string option" where
  "extract_token authHeader =
     (if truthy authHeader
      then (case authHeader of None \<Rightarrow> None | Some h \<Rightarrow> index (split_str CHR '' '' h) 1)
      else authHeader)"

text \<open>
  The middleware answers 401 when the token is falsy and 403 when verification fails;
  otherwise it sets \<open>req.user\<close> to the decoded payload and calls \<open>next\<close>, the handler
  of the route.
\<close>

definition authenticateToken ::
  "env \<Rightarrow> (request \<Rightarrow> database \<Rightarrow> response \<times> database) \<Rightarrow> request \<Rightarrow> database
     \<Rightarrow> response \<times> database" where
  "authenticateToken e next req db =
     (let token = extract_token (authorization req) in
      if \<not> truthy token then (sendStatus 401, db)
      else (case token of
              None \<Rightarrow> (sendStatus 401, db)
            | Some t \<Rightarrow>
                (case jwt_verify e t of
                   None \<Rightarrow> (sendStatus 403, db)
                 | Some user \<Rightarrow> next (req\<lparr>req_user := Some user\<rparr>) db)))"

subsection \<open>The route handlers\<close>

text \<open>\<open>catch (err) { res.status(500).json({ error: err.message }) }\<close>\<close>

definition caught :: "exn \<Rightarrow> response" where
  "caught err = status_json 500 (Json_exn err)"

text \<open>
  An exception outside a \<open>try\<close> block is left to Express. It can only be the
  \<open>TypeError\<close> of reading \<open>req.user.user_id\<close> with no \<open>req.user\<close>, and the middleware
  always sets \<open>req.user\<close> before a handler runs.
\<close>

definition unhandled :: "exn \<Rightarrow> response" where
  "unhandled err = (500, Unhandled err)"

text \<open>POST /login\<close>

definition login :: "env \<Rightarrow> request \<Rightarrow> database \<Rightarrow> response \<times> database" where
  "login e req db =
     (case db_select e ''SELECT * FROM users WHERE email = $1'' [text_param (body_email req)] db of
        Inl err \<Rightarrow> (caught err, db)
      | Inr rows \<Rightarrow>
          if length rows = 0 then (status_json 400 (Json_error ''User not found''), db)
          else
            (case index rows 0 of
               Some (User user) \<Rightarrow>
                 (case compare_password e (body_password req) (users_password user) of
                    Inl err \<Rightarrow> (caught err, db)
                  | Inr validPassword \<Rightarrow>
                      if \<not> validPassword
                      then (status_json 401 (Json_error ''Invalid password''), db)
                      else (case jwt_sign e (users_user_id user) ''1h'' of
                              Inl err \<Rightarrow> (caught err, db)
                            | Inr token \<Rightarrow> (json (Json_token token), db)))
             | Some _ \<Rightarrow> (caught Bcrypt_missing_argument, db)
             | None \<Rightarrow> (caught TypeError_undefined, db)))"

text \<open>POST /tasks\<close>

definition create_task :: "env \<Rightarrow> request \<Rightarrow> database \<Rightarrow> response \<times> database" where
  "create_task e req db =
     (case req_user req of
        None \<Rightarrow> (caught TypeError_undefined, db)
      | Some user \<Rightarrow>
          (case insert_task e (user_id user) (body_title req) (body_description req)
                  (body_priority req) (body_deadline req) db of
             (Inl err, db') \<Rightarrow> (caught err, db')
           | (Inr rows, db') \<Rightarrow> (json (Json_row (index rows 0)), db')))"

text \<open>
  GET /tasks: the query text and the parameter list, built from the principal and the
  three optional filters. Each filter that is truthy takes the next parameter number,
  appends its predicate to the text and its value to the parameters.
\<close>

definition to_string :: "string option \<Rightarrow> string" where
  "to_string v = (case v of None \<Rightarrow> ''undefined'' | Some s \<Rightarrow> s)"

definition tasks_query ::
  "int \<Rightarrow> string option \<Rightarrow> string option \<Rightarrow> string option \<Rightarrow> string \<times> sqlval list" where
  "tasks_query uid q_status q_priority q_search =
     (let queryText = ''SELECT * FROM tasks WHERE user_id = $1'';
          queryParams = [SInt uid];
          paramCount = (1::nat);
          (queryText, queryParams, paramCount) =
            (if truthy q_status then
               (let paramCount = paramCount + 1 in
                (queryText @ '' AND status = $'' @ show_nat paramCount,
                 queryParams @ [text_param q_status], paramCount))
             else (queryText, queryParams, paramCount));
          (queryText, queryParams, paramCount) =
            (if truthy q_priority then
               (let paramCount = paramCount + 1 in
                (queryText @ '' AND priority = $'' @ show_nat paramCount,
                 queryParams @ [text_param q_priority], paramCount))
             else (queryText, queryParams, paramCount));
          (queryText, queryParams, paramCount) =
            (if truthy q_search then
               (let paramCount = paramCount + 1 in
                (queryText @ '' AND (title ILIKE $'' @ show_nat paramCount
                   @ '' OR description ILIKE $'' @ show_nat paramCount @ '')'',
                 queryParams @ [SText (''%'' @ to_string q_search @ ''%'')], paramCount))
             else (queryText, queryParams, paramCount))
      in (queryText, queryParams))"

definition get_tasks :: "env \<Rightarrow> request \<Rightarrow> database \<Rightarrow> response \<times> database" where
  "get_tasks e req db =
     (case req_user req of
        None \<Rightarrow> (unhandled TypeError_undefined, db)
      | Some user \<Rightarrow>
          (case tasks_query (user_id user) (query_status req) (query_priority req)
                  (query_search req) of
             (queryText, queryParams) \<Rightarrow>
               (case db_select e queryText queryParams db of
                  Inl err \<Rightarrow> (caught err, db)
                | Inr rows \<Rightarrow> (json (Json_rows rows), db))))"

text \<open>PUT /tasks/:id\<close>

definition put_task :: "env \<Rightarrow> string \<Rightarrow> request \<Rightarrow> database \<Rightarrow> response \<times> database" where
  "put_task e p_id req db =
     (case req_user req of
        None \<Rightarrow> (caught TypeError_undefined, db)
      | Some user \<Rightarrow>
          (case update_task e (body_title req) (body_description req) (body_priority req)
                  (body_status req) (body_deadline req) p_id (user_id user) db of
             (Inl err, db') \<Rightarrow> (caught err, db')
           | (Inr rows, db') \<Rightarrow>
               if length rows = 0 then (status_json 404 (Json_error ''Task not found''), db')
               else (json (Json_row (index rows 0)), db')))"

text \<open>DELETE /tasks/:id\<close>

definition del_task :: "env \<Rightarrow> string \<Rightarrow> request \<Rightarrow> database \<Rightarrow> response \<times> database" where
  "del_task e p_id req db =
     (case req_user req of
        None \<Rightarrow> (caught TypeError_undefined, db)
      | Some user \<Rightarrow>
          (case delete_task e p_id (user_id user) db of
             (Inl err, db') \<Rightarrow> (caught err, db')
           | (Inr rows, db') \<Rightarrow>
               if length rows = 0 then (status_json 404 (Json_error ''Task not found''), db')
               else (json (Json_message ''Task deleted successfully''), db')))"

text \<open>
  GET /dashboard/stats. \<open>parseInt(result.rows[0].count)\<close>: the first row's \<open>count\<close>
  field read as a number. A missing row is the \<open>TypeError\<close> of the source. A count that
  is not a number would be \<open>NaN\<close> in the source, \<open>null\<close> in the answer; the counts of the
  model are numbers, so that case is an error here. It does not arise: the text of a
  count is a numeral (\<open>parseInt_show_nat\<close>).
\<close>

definition count_of :: "row list \<Rightarrow> exn + nat" where
  "count_of rows =
     (case index rows 0 of
        None \<Rightarrow> Inl TypeError_undefined
      | Some (Count c) \<Rightarrow> (case parseInt c of None \<Rightarrow> Inl Not_a_number | Some n \<Rightarrow> Inr n)
      | Some _ \<Rightarrow> Inl Not_a_number)"

text \<open>One of the five count queries followed by the reading of its result.\<close>

definition count_query :: "env \<Rightarrow> string \<Rightarrow> sqlval list \<Rightarrow> database \<Rightarrow> exn + nat" where
  "count_query e text params db =
     (case db_select e text params db of Inl err \<Rightarrow> Inl err | Inr rows \<Rightarrow> count_of rows)"

definition dashboard_stats :: "env \<Rightarrow> request \<Rightarrow> database \<Rightarrow> response \<times> database" where
  "dashboard_stats e req db =
     (case req_user req of
        None \<Rightarrow> (unhandled TypeError_undefined, db)
      | Some user \<Rightarrow>
          (let userId = user_id user;
               total = count_query e ''SELECT COUNT(*) FROM tasks WHERE user_id = $1''
                         [SInt userId] db;
               completed = count_query e
                         ''SELECT COUNT(*) FROM tasks WHERE user_id = $1 AND status = $2''
                         [SInt userId, SText ''Completed''] db;
               pending = count_query e
                         ''SELECT COUNT(*) FROM tasks WHERE user_id = $1 AND status = $2''
                         [SInt userId, SText ''Pending''] db;
               highPriority = count_query e
                         ''SELECT COUNT(*) FROM tasks WHERE user_id = $1 AND priority = $2''
                         [SInt userId, SText ''High''] db;
               overdue = count_query e
                         (''SELECT COUNT(*) FROM tasks '' @ [CHR 0x0A] @
                          ''             WHERE user_id = $1 AND status != 'Completed' AND deadline < NOW()'')
                         [SInt userId] db
           in case total of Inl err \<Rightarrow> (caught err, db) | Inr t \<Rightarrow>
              case completed of Inl err \<Rightarrow> (caught err, db) | Inr c \<Rightarrow>
              case pending of Inl err \<Rightarrow> (caught err, db) | Inr p \<Rightarrow>
              case highPriority of Inl err \<Rightarrow> (caught err, db) | Inr h \<Rightarrow>
              case overdue of Inl err \<Rightarrow> (caught err, db) | Inr od \<Rightarrow>
                (json (Json_stats \<lparr>totalTasks = t, completedTasks = c, pendingTasks = p,
                                   highPriorityTasks = h, overdueTasks = od\<rparr>), db)))"

subsection \<open>The application\<close>

text \<open>
  The routes of the application that serve registered users. The five routes on tasks
  and statistics are registered behind the middleware.
\<close>

definition handler :: "env \<Rightarrow> route \<Rightarrow> request \<Rightarrow> database \<Rightarrow> response \<times> database" where
  "handler e r =
     (case r of
        Post_tasks \<Rightarrow> create_task e
      | Get_tasks \<Rightarrow> get_tasks e
      | Put_tasks_id p_id \<Rightarrow> put_task e p_id
      | Delete_tasks_id p_id \<Rightarrow> del_task e p_id
      | Get_dashboard_stats \<Rightarrow> dashboard_stats e
      | Post_login \<Rightarrow> login e)"

definition protected :: "route \<Rightarrow> bool" where
  "protected r = (case r of Post_login \<Rightarrow> False | _ \<Rightarrow> True)"

definition app :: "env \<Rightarrow> request \<Rightarrow> database \<Rightarrow> response \<times> database" where
  "app e req db =
     (if protected (req_route req)
      then authenticateToken e (handler e (req_route req)) req db
      else handler e (req_route req) req db)"

subsection \<open>A small world for concrete runs\<close>

text \<open>
  Two registered users, A (identifier 1) and B (identifier 2), with a token each; three
  tasks, two of A and one of B; the server's clock at 100. Tokens are verified by table
  look-up, integers and timestamps are read as decimal numerals, and the locale is the
  one that folds the letters A to Z and nothing else (PostgreSQL's \<open>C\<close> locale).
\<close>

definition to_lower :: "char \<Rightarrow> char" where
  "to_lower c =
     (if (65::nat) \<le> of_char c \<and> (of_char c :: nat) \<le> 90
      then char_of ((of_char c :: nat) + 32) else c)"

definition decimal_in :: "string \<Rightarrow> int option" where
  "decimal_in s = (if s \<noteq> [] \<and> list_all is_digit s then Some (int (read_digits 0 s)) else None)"

definition sample_env :: env where
  "sample_env =
     \<lparr>jwt_verify = (\<lambda>t. if t = ''tokA'' then Some \<lparr>user_id = 1, iat = 0, exp = 3600\<rparr>
                        else if t = ''tokB'' then Some \<lparr>user_id = 2, iat = 0, exp = 3600\<rparr>
                        else None),
      jwt_encode = (\<lambda>p. if user_id p = 1 then ''tokA'' else ''tokB''),
      bcrypt_compare = (\<lambda>p h. h = ''#'' @ p),
      date_now = 0,
      db_now = 100,
      int4_in = decimal_in,
      timestamp_in = decimal_in,
      lower_char = map to_lower\<rparr>"

definition sample_db :: database where
  "sample_db =
     \<lparr>users =
        [\<lparr>users_user_id = 1, users_name = Some ''A'', users_email = Some ''a@x.org'',
          users_password = ''#secretA''\<rparr>,
         \<lparr>users_user_id = 2, users_name = Some ''B'', users_email = Some ''b@x.org'',
          users_password = ''#secretB''\<rparr>],
      tasks =
        [\<lparr>task_id = 1, tasks_user_id = 1, title = Some ''Weekly Report'', description = None,
          priority = Some ''High'', status = Some ''Pending'', deadline = Some 50,
          created_at = 10, updated_at = 10\<rparr>,
         \<lparr>task_id = 2, tasks_user_id = 1, title = Some ''x'',
          description = Some ''the REPORT again'', priority = Some ''Low'',
          status = Some ''Completed'', deadline = Some 50, created_at = 10, updated_at = 10\<rparr>,
         \<lparr>task_id = 3, tasks_user_id = 2, title = Some ''other'', description = None,
          priority = None, status = Some ''Pending'', deadline = None,
          created_at = 10, updated_at = 10\<rparr>],
      next_user_id = 3,
      next_task_id = 4\<rparr>"

text \<open>A request to a route with a header and nothing else.\<close>

definition request_to :: "route \<Rightarrow> string option \<Rightarrow> request" where
  "request_to r h =
     \<lparr>req_route = r, authorization = h, query_status = None, query_priority = None,
      query_search = None, body_email = None, body_password = None, body_title = None,
      body_description = None, body_priority = None, body_status = None,
      body_deadline = None, req_user = None\<rparr>"

text \<open>A asks for task 1 to be marked completed.\<close>

definition sample_put :: request where
  "sample_put =
     (request_to (Put_tasks_id ''1'') (Some ''Bearer tokA''))\<lparr>body_status := Some ''Completed''\<rparr>"

subsection \<open>Notions used by the properties\<close>

text \<open>
  The request carries a token that the middleware extracts and that verifies to the
  payload \<open>user\<close>: the request of an authenticated principal, \<open>user_id user\<close>.
\<close>

definition verified_as :: "env \<Rightarrow> request \<Rightarrow> jwt_payload \<Rightarrow> bool" where
  "verified_as e req user =
     (case extract_token (authorization req) of
        None \<Rightarrow> False
      | Some t \<Rightarrow> t \<noteq> [] \<and> jwt_verify e t = Some user)"

text \<open>
  The row that \<open>rows[0]\<close> of \<open>SELECT * FROM users WHERE email = $1\<close> is: the first
  row with the given email, if the email is given and some row has it.
\<close>

definition user_by_email :: "database \<Rightarrow> string option \<Rightarrow> users_row option" where
  "user_by_email db email =
     (case email of None \<Rightarrow> None | Some m \<Rightarrow> find (\<lambda>u. users_email u = Some m) (users db))"

text \<open>
  No task has a NULL status. The application keeps it so: a task is created with the
  column's default and an update writes \<open>COALESCE($4, status)\<close>.
\<close>

definition statuses_defined :: "database \<Rightarrow> bool" where
  "statuses_defined db = list_all (\<lambda>r. status r \<noteq> None) (tasks db)"

text \<open>The store after a sequence of requests, each served in its own environment.\<close>

fun run :: "(env \<times> request) list \<Rightarrow> database \<Rightarrow> database" where
  "run [] db = db"
| "run ((e, req) # steps) db = run steps (snd (app e req db))"

text \<open>
  The tasks of a principal under the three filters, a filter being a value or nothing:
  a status and a priority select by equality, a search selects the tasks in whose title
  or description the search text is \<open>found\<close>. The parameter \<open>found\<close> says what that
  means.
\<close>

definition select_tasks ::
  "(string \<Rightarrow> string option \<Rightarrow> bool) \<Rightarrow> int \<Rightarrow> string option \<Rightarrow> string option \<Rightarrow> string option
     \<Rightarrow> tasks_row list \<Rightarrow> tasks_row list" where
  "select_tasks found uid s p q rows =
     filter (\<lambda>r. tasks_user_id r = uid
                \<and> (case s of None \<Rightarrow> True | Some v \<Rightarrow> status r = Some v)
                \<and> (case p of None \<Rightarrow> True | Some v \<Rightarrow> priority r = Some v)
                \<and> (case q of None \<Rightarrow> True
                    | Some w \<Rightarrow> found w (title r) \<or> found w (description r)))
       rows"

text \<open>
  Found as the specification words it: the search text is a substring of the field,
  letter case ignored, that is, after both are folded to lower case. A field that is
  NULL contains nothing.
\<close>

definition ci_substring :: "env \<Rightarrow> string \<Rightarrow> string option \<Rightarrow> bool" where
  "ci_substring e w field =
     (case field of None \<Rightarrow> False | Some t \<Rightarrow> sublist (fold_case e w) (fold_case e t))"

text \<open>Found as the statement has it: the field matches the pattern \<open>%w%\<close> under ILIKE.\<close>

definition pattern_found :: "env \<Rightarrow> string \<Rightarrow> string option \<Rightarrow> bool" where
  "pattern_found e w field =
     (case field of None \<Rightarrow> False | Some t \<Rightarrow> ilike e t (''%'' @ w @ ''%''))"

text \<open>A text without the characters that LIKE reads as wildcards or as the escape.\<close>

definition wildcard_free :: "string \<Rightarrow> bool" where
  "wildcard_free q = list_all (\<lambda>c. c \<noteq> CHR ''%'' \<and> c \<noteq> CHR ''_'' \<and> c \<noteq> CHR 0x5C) q"

text \<open>
  The case folding of the locale leaves the three characters that LIKE reads as
  wildcards or as the escape as they are, and folds no other character to one of them.
\<close>

definition wildcard :: "string \<Rightarrow> bool" where
  "wildcard c = (c = ''%'' \<or> c = ''_'' \<or> c = [CHR 0x5C])"

definition keeps_wildcards :: "env \<Rightarrow> bool" where
  "keeps_wildcards e =
     (\<forall>c. wildcard c \<or> wildcard (lower_char e c) \<longrightarrow> lower_char e c = c)"

text \<open>A value the server accepts as a text parameter: NULL, or an acceptable text.\<close>

definition accepted :: "string option \<Rightarrow> bool" where
  "accepted v = (case v of None \<Rightarrow> True | Some s \<Rightarrow> acceptable s)"

text \<open>A filter that counts: present and not the empty string.\<close>

definition nonempty :: "string option \<Rightarrow> string option" where
  "nonempty v = (if truthy v then v else None)"

section \<open>Properties\<close>

subsection \<open>The token in the authorization header\<close>

lemma split_str_not_Nil: "split_str c xs \<noteq> []"
  by (induction xs) (auto split: list.splits)

lemma split_str_no_sep: "c \<notin> set xs \<Longrightarrow> split_str c xs = [xs]"
  by (induction xs) auto

lemma split_str_append: "c \<notin> set xs \<Longrightarrow> split_str c (xs @ c # ys) = xs # split_str c ys"
  by (induction xs) auto

lemma hd_split_str: "hd (split_str c ys) = takeWhile (\<lambda>x. x \<noteq> c) ys"
  by (induction ys) (auto split: list.splits simp: split_str_not_Nil)

lemma index_hd: "xs \<noteq> [] \<Longrightarrow> index xs 0 = Some (hd xs)"
  by (cases xs) auto

lemma extract_token_none: "extract_token None = None"
  by (simp add: extract_token_def truthy_def)

lemma extract_token_no_space: "CHR '' '' \<notin> set h \<Longrightarrow> \<not> truthy (extract_token (Some h))"
  by (simp add: extract_token_def truthy_def split_str_no_sep)

lemma extract_token_scheme:
  "CHR '' '' \<notin> set x \<Longrightarrow>
   extract_token (Some (x @ CHR '' '' # rest)) = Some (takeWhile (\<lambda>c. c \<noteq> CHR '' '') rest)"
  by (simp add: extract_token_def truthy_def split_str_append index_hd split_str_not_Nil
        hd_split_str)

lemma extract_token_bearer:
  "CHR '' '' \<notin> set t \<Longrightarrow> extract_token (Some (''Bearer '' @ t)) = Some t"
  using extract_token_scheme[of "''Bearer''" t] by auto

text \<open>
  C1. On each of the five protected routes the middleware decides before the handler:
  a request whose header yields no token (in particular a request with no authorization
  header) is answered 401 and the store is untouched; a request whose token fails
  verification is answered 403 and the store is untouched; a request whose token
  verifies is handed to the route's handler unchanged but for \<open>req.user\<close>, which is the
  decoded payload with its user identifier. The token of the header \<open>Bearer t\<close> is \<open>t\<close>.
\<close>

theorem credential_gate:
  assumes "req_route req = Post_tasks \<or> req_route req = Get_tasks
         \<or> req_route req = Put_tasks_id i \<or> req_route req = Delete_tasks_id i
         \<or> req_route req = Get_dashboard_stats"
  shows "(\<not> truthy (extract_token (authorization req)) \<longrightarrow>
            app e req db = (sendStatus 401, db))
       \<and> (authorization req = None \<longrightarrow> app e req db = (sendStatus 401, db))
       \<and> (\<forall>t. extract_token (authorization req) = Some t \<and> t \<noteq> [] \<and> jwt_verify e t = None
              \<longrightarrow> app e req db = (sendStatus 403, db))
       \<and> (\<forall>t user. extract_token (authorization req) = Some t \<and> t \<noteq> []
               \<and> jwt_verify e t = Some user
              \<longrightarrow> app e req db = handler e (req_route req) (req\<lparr>req_user := Some user\<rparr>) db)
       \<and> (\<forall>t. CHR '' '' \<notin> set t \<longrightarrow> extract_token (Some (''Bearer '' @ t)) = Some t)"
proof -
  from assms have p: "protected (req_route req)"
    by (auto simp: protected_def)
  have a: "app e req db = authenticateToken e (handler e (req_route req)) req db"
    using p by (simp add: app_def)
  have 1: "\<not> truthy (extract_token (authorization req)) \<Longrightarrow> app e req db = (sendStatus 401, db)"
    by (simp add: a authenticateToken_def)
  have 2: "authorization req = None \<Longrightarrow> app e req db = (sendStatus 401, db)"
    by (simp add: a authenticateToken_def extract_token_none truthy_def)
  have 3: "app e req db = (sendStatus 403, db)"
    if "extract_token (authorization req) = Some t" "t \<noteq> []" "jwt_verify e t = None" for t
    using that by (simp add: a authenticateToken_def truthy_def)
  have 4: "app e req db = handler e (req_route req) (req\<lparr>req_user := Some user\<rparr>) db"
    if "extract_token (authorization req) = Some t" "t \<noteq> []" "jwt_verify e t = Some user"
    for t user
    using that by (simp add: a authenticateToken_def truthy_def)
  have 5: "extract_token (Some (''Bearer '' @ t)) = Some t" if "CHR '' '' \<notin> set t" for t
    using that by (rule extract_token_bearer)
  show ?thesis using 1 2 3 4 5 by blast
qed

theorem credential_gate_witness:
  "app sample_env (request_to Get_tasks None) sample_db = (sendStatus 401, sample_db)
   \<and> jwt_verify sample_env ''forged'' = None
   \<and> app sample_env (request_to Post_tasks (Some ''Bearer forged'')) sample_db
       = (sendStatus 403, sample_db)
   \<and> jwt_verify sample_env ''tokA'' = Some \<lparr>user_id = 1, iat = 0, exp = 3600\<rparr>
   \<and> app sample_env (request_to Get_dashboard_stats (Some ''Bearer tokA'')) sample_db
       = dashboard_stats sample_env
           ((request_to Get_dashboard_stats (Some ''Bearer tokA''))
              \<lparr>req_user := Some \<lparr>user_id = 1, iat = 0, exp = 3600\<rparr>\<rparr>) sample_db"
  using credential_gate[of "request_to Get_tasks None" "''1''" sample_env sample_db]
        credential_gate[of "request_to Post_tasks (Some ''Bearer forged'')" "''1''"
                           sample_env sample_db]
        credential_gate[of "request_to Get_dashboard_stats (Some ''Bearer tokA'')" "''1''"
                           sample_env sample_db]
  by (simp add: request_to_def sample_env_def handler_def)

text \<open>
  C9. The middleware never looks at the scheme word. For a header \<open>x\<close>, a space, and
  the rest, where \<open>x\<close> is any word without a space (\<open>Bearer\<close> or not, even empty), the
  token is the rest up to its next space: an empty token is answered 401, any other
  is verified, answered 403 when verification fails and passed on with the decoded
  payload when it succeeds. A header without any space yields no token and is
  answered 401.
\<close>

theorem scheme_word_unchecked:
  "(CHR '' '' \<notin> set x \<and> authorization req = Some (x @ CHR '' '' # rest) \<longrightarrow>
      authenticateToken e continue req db =
        (let t = takeWhile (\<lambda>c. c \<noteq> CHR '' '') rest in
         if t = [] then (sendStatus 401, db)
         else case jwt_verify e t of
                None \<Rightarrow> (sendStatus 403, db)
              | Some user \<Rightarrow> continue (req\<lparr>req_user := Some user\<rparr>) db))
   \<and> (CHR '' '' \<notin> set h \<and> authorization req = Some h \<longrightarrow>
      authenticateToken e continue req db = (sendStatus 401, db))"
proof (intro conjI impI)
  assume "CHR '' '' \<notin> set x \<and> authorization req = Some (x @ CHR '' '' # rest)"
  then show "authenticateToken e continue req db =
        (let t = takeWhile (\<lambda>c. c \<noteq> CHR '' '') rest in
         if t = [] then (sendStatus 401, db)
         else case jwt_verify e t of
                None \<Rightarrow> (sendStatus 403, db)
              | Some user \<Rightarrow> continue (req\<lparr>req_user := Some user\<rparr>) db)"
    using extract_token_scheme[of x rest]
    by (simp add: authenticateToken_def truthy_def Let_def)
next
  assume "CHR '' '' \<notin> set h \<and> authorization req = Some h"
  then show "authenticateToken e continue req db = (sendStatus 401, db)"
    using extract_token_no_space[of h] by (simp add: authenticateToken_def)
qed

theorem scheme_word_unchecked_witness:
  "authenticateToken sample_env (get_tasks sample_env)
      (request_to Get_tasks (Some ''Basic tokA'')) sample_db
     = get_tasks sample_env
         ((request_to Get_tasks (Some ''Basic tokA''))
            \<lparr>req_user := Some \<lparr>user_id = 1, iat = 0, exp = 3600\<rparr>\<rparr>) sample_db
   \<and> authenticateToken sample_env (get_tasks sample_env)
      (request_to Get_tasks (Some ''tokA'')) sample_db = (sendStatus 401, sample_db)"
  using scheme_word_unchecked[where x = "''Basic''" and rest = "''tokA''" and h = "''tokA''"
          and req = "request_to Get_tasks (Some ''Basic tokA'')" and e = sample_env
          and db = sample_db and continue = "get_tasks sample_env"]
        scheme_word_unchecked[where x = "''Basic''" and rest = "''tokA''" and h = "''tokA''"
          and req = "request_to Get_tasks (Some ''tokA'')" and e = sample_env
          and db = sample_db and continue = "get_tasks sample_env"]
  by (simp add: request_to_def sample_env_def Let_def)

subsection \<open>Requests of an authenticated principal\<close>

lemma app_verified:
  assumes "protected (req_route req)" and "verified_as e req user"
  shows "app e req db = handler e (req_route req) (req\<lparr>req_user := Some user\<rparr>) db"
  using assms
  by (auto simp: app_def authenticateToken_def verified_as_def truthy_def split: option.splits)

lemma verified_as_bearer:
  "authorization req = Some (''Bearer '' @ t) \<Longrightarrow> t \<noteq> [] \<Longrightarrow> CHR '' '' \<notin> set t
     \<Longrightarrow> jwt_verify e t = Some user \<Longrightarrow> verified_as e req user"
  using extract_token_bearer[of t] by (simp add: verified_as_def)

subsection \<open>Numerals\<close>

lemma is_digit_digit_char: "d < 10 \<Longrightarrow> is_digit (digit_char d)"
  by (simp add: is_digit_def digit_char_def)

lemma digit_val_digit_char: "d < 10 \<Longrightarrow> digit_val (digit_char d) = d"
  by (simp add: digit_val_def digit_char_def)

lemma read_digits_append:
  "list_all is_digit ds \<Longrightarrow> read_digits acc (ds @ es) = read_digits (read_digits acc ds) es"
  by (induction ds arbitrary: acc) auto

lemma show_nat_digits: "list_all is_digit (show_nat n)"
proof (induction n rule: show_nat.induct)
  case (1 n)
  show ?case
  proof (cases "n < 10")
    case True
    then show ?thesis by (subst show_nat.simps) (simp add: is_digit_digit_char)
  next
    case False
    with 1 show ?thesis by (subst show_nat.simps) (simp add: is_digit_digit_char)
  qed
qed

lemma show_nat_not_Nil: "show_nat n \<noteq> []"
  by (subst show_nat.simps) simp

lemma read_show_nat: "read_digits 0 (show_nat n) = n"
proof (induction n rule: show_nat.induct)
  case (1 n)
  show ?case
  proof (cases "n < 10")
    case True
    then show ?thesis
      by (subst show_nat.simps) (simp add: is_digit_digit_char digit_val_digit_char)
  next
    case False
    with 1 have "read_digits 0 (show_nat (n div 10)) = n div 10" by simp
    with False show ?thesis
      by (subst show_nat.simps)
         (simp add: read_digits_append show_nat_digits is_digit_digit_char digit_val_digit_char)
  qed
qed

text \<open>The text of a count read back by \<open>parseInt\<close> is the count.\<close>

lemma parseInt_show_nat: "parseInt (show_nat n) = Some n"
proof -
  obtain c cs where s: "show_nat n = c # cs"
    using show_nat_not_Nil[of n] by (cases "show_nat n") auto
  moreover have "is_digit c" using show_nat_digits[of n] s by simp
  ultimately show ?thesis using read_show_nat[of n] by (simp add: parseInt_def)
qed

subsection \<open>Conditions in three-valued logic\<close>

lemma and3_True: "and3 vs = Some True \<longleftrightarrow> (\<forall>v \<in> set vs. v = Some True)"
  by (auto simp: and3_def) (metis (full_types) not_Some_eq)

lemma or3_True: "or3 vs = Some True \<longleftrightarrow> Some True \<in> set vs"
  by (auto simp: or3_def)

text \<open>A row is kept when every conjunct has a comparison that is true on it.\<close>

lemma holds_True: "holds bc r = Some True \<longleftrightarrow> (\<forall>d \<in> set bc. \<exists>f \<in> set d. f r = Some True)"
proof -
  have "holds bc r = Some True \<longleftrightarrow> (\<forall>d \<in> set bc. or3 (map (\<lambda>f. f r) d) = Some True)"
    by (simp add: holds_def and3_True)
  also have "\<dots> \<longleftrightarrow> (\<forall>d \<in> set bc. \<exists>f \<in> set d. f r = Some True)"
    by (simp add: or3_True image_iff) metis
  finally show ?thesis .
qed

lemma compare_eq_text: "sql_compare e Op_eq (text_param v) (SText s) = Some True \<longleftrightarrow> v = Some s"
  by (cases v) (auto simp: text_param_def)

lemma compare_ne_text:
  "sql_compare e Op_ne (text_param v) (SText s) = Some True \<longleftrightarrow> (v \<noteq> None \<and> v \<noteq> Some s)"
  by (cases v) (auto simp: text_param_def)

lemma compare_lt_time:
  "sql_compare e Op_lt (int_opt d) (SInt n) = Some True
     \<longleftrightarrow> (case d of None \<Rightarrow> False | Some t \<Rightarrow> t < n)"
  by (cases d) (auto simp: int_opt_def)

text \<open>The server accepts the texts that the statements of the handlers hold.\<close>

lemma acceptable_literals:
  "acceptable ''Completed''" "acceptable ''Pending''" "acceptable ''High''"
  by code_simp+

lemma convert_text: "acceptable s \<Longrightarrow> convert e T_text s = Inr (SText s)"
  by (simp add: convert_def text_in_def)

lemma refused_accepted: "list_all accepted vs \<Longrightarrow> refused vs = None"
  by (induction vs rule: refused.induct) (auto simp: accepted_def)

lemmas run_select_defs =
  run_select_def params_ok_def cond_params_def bind_cond_def bind_atom_def tasks_column_def
  bind_operand_def convert_text holds_True

subsection \<open>The statistics\<close>

lemma parse_count_total:
  "parse_select ''SELECT COUNT(*) FROM tasks WHERE user_id = $1''
     = Some (Count_star, ''tasks'', [[Atom ''user_id'' Op_eq (Param 1)]])"
  by code_simp

lemma parse_count_status:
  "parse_select ''SELECT COUNT(*) FROM tasks WHERE user_id = $1 AND status = $2''
     = Some (Count_star, ''tasks'',
         [[Atom ''user_id'' Op_eq (Param 1)], [Atom ''status'' Op_eq (Param 2)]])"
  by code_simp

lemma parse_count_priority:
  "parse_select ''SELECT COUNT(*) FROM tasks WHERE user_id = $1 AND priority = $2''
     = Some (Count_star, ''tasks'',
         [[Atom ''user_id'' Op_eq (Param 1)], [Atom ''priority'' Op_eq (Param 2)]])"
  by code_simp

lemma parse_count_overdue:
  "parse_select (''SELECT COUNT(*) FROM tasks '' @ [CHR 0x0A] @
       ''             WHERE user_id = $1 AND status != 'Completed' AND deadline < NOW()'')
     = Some (Count_star, ''tasks'',
         [[Atom ''user_id'' Op_eq (Param 1)], [Atom ''status'' Op_ne (Lit ''Completed'')],
          [Atom ''deadline'' Op_lt Now]])"
  by code_simp

lemma count_total:
  "count_query e ''SELECT COUNT(*) FROM tasks WHERE user_id = $1'' [SInt uid] db
     = Inr (length (filter (\<lambda>r. tasks_user_id r = uid) (tasks db)))"
  by (simp add: count_query_def db_select_def parse_count_total run_select_defs project_def
        count_of_def parseInt_show_nat)

lemma count_status:
  "acceptable s \<Longrightarrow>
   count_query e ''SELECT COUNT(*) FROM tasks WHERE user_id = $1 AND status = $2''
      [SInt uid, SText s] db
     = Inr (length (filter (\<lambda>r. tasks_user_id r = uid \<and> status r = Some s) (tasks db)))"
  by (simp add: count_query_def db_select_def parse_count_status run_select_defs project_def
        count_of_def parseInt_show_nat compare_eq_text)

lemma count_priority:
  "acceptable s \<Longrightarrow>
   count_query e ''SELECT COUNT(*) FROM tasks WHERE user_id = $1 AND priority = $2''
      [SInt uid, SText s] db
     = Inr (length (filter (\<lambda>r. tasks_user_id r = uid \<and> priority r = Some s) (tasks db)))"
  by (simp add: count_query_def db_select_def parse_count_priority run_select_defs project_def
        count_of_def parseInt_show_nat compare_eq_text)

lemma count_overdue:
  "count_query e (''SELECT COUNT(*) FROM tasks '' @ [CHR 0x0A] @
       ''             WHERE user_id = $1 AND status != 'Completed' AND deadline < NOW()'')
      [SInt uid] db
     = Inr (length (filter (\<lambda>r. tasks_user_id r = uid \<and> status r \<noteq> None
                                \<and> status r \<noteq> Some ''Completed''
                                \<and> (case deadline r of None \<Rightarrow> False | Some t \<Rightarrow> t < db_now e))
                      (tasks db)))"
  by (simp only: count_query_def db_select_def parse_count_overdue)
     (simp add: run_select_defs project_def count_of_def parseInt_show_nat compare_ne_text
        compare_lt_time acceptable_literals)

text \<open>What the handler answers once \<open>req.user\<close> is set.\<close>

lemma dashboard_stats_answer:
  assumes "req_user req = Some user"
  shows "dashboard_stats e req db =
     (json (Json_stats
        \<lparr>totalTasks = length (filter (\<lambda>r. tasks_user_id r = user_id user) (tasks db)),
         completedTasks = length (filter (\<lambda>r. tasks_user_id r = user_id user
                                              \<and> status r = Some ''Completed'') (tasks db)),
         pendingTasks = length (filter (\<lambda>r. tasks_user_id r = user_id user
                                            \<and> status r = Some ''Pending'') (tasks db)),
         highPriorityTasks = length (filter (\<lambda>r. tasks_user_id r = user_id user
                                                 \<and> priority r = Some ''High'') (tasks db)),
         overdueTasks = length (filter (\<lambda>r. tasks_user_id r = user_id user
                                \<and> status r \<noteq> None \<and> status r \<noteq> Some ''Completed''
                                \<and> (case deadline r of None \<Rightarrow> False | Some t \<Rightarrow> t < db_now e))
                           (tasks db))\<rparr>), db)"
  unfolding dashboard_stats_def Let_def count_total count_overdue
    count_status[OF acceptable_literals(1)] count_status[OF acceptable_literals(2)]
    count_priority[OF acceptable_literals(3)]
  using assms by simp

subsection \<open>The store under the handlers\<close>

lemma snd_login: "snd (login e req db) = db"
  by (simp add: login_def split: sum.splits option.splits row.splits)

lemma snd_get_tasks: "snd (get_tasks e req db) = db"
  by (simp add: get_tasks_def split: option.splits prod.splits sum.splits)

lemma snd_dashboard_stats: "snd (dashboard_stats e req db) = db"
  by (simp add: dashboard_stats_def Let_def split: option.splits sum.splits list.splits)

lemma statuses_insert_task:
  "statuses_defined db \<Longrightarrow> statuses_defined (snd (insert_task e uid a b c d db))"
  by (auto simp: insert_task_def statuses_defined_def Let_def split: sum.splits option.splits)

lemma statuses_update_task:
  "statuses_defined db \<Longrightarrow> statuses_defined (snd (update_task e a b c d f i uid db))"
  by (auto simp: update_task_def statuses_defined_def Let_def coalesce_def list_all_iff
           split: sum.splits option.splits)

lemma statuses_delete_task:
  "statuses_defined db \<Longrightarrow> statuses_defined (snd (delete_task e i uid db))"
  by (auto simp: delete_task_def statuses_defined_def Let_def list_all_iff split: option.splits)

lemma statuses_handler:
  assumes "statuses_defined db"
  shows "statuses_defined (snd (handler e r req db))"
proof (cases r)
  case Post_login
  with assms show ?thesis by (simp add: handler_def snd_login)
next
  case Post_tasks
  have "snd (create_task e req db) =
          (case req_user req of
             None \<Rightarrow> db
           | Some user \<Rightarrow> snd (insert_task e (user_id user) (body_title req)
                                (body_description req) (body_priority req) (body_deadline req) db))"
    by (simp add: create_task_def split: option.splits prod.splits sum.splits list.splits)
  then show ?thesis
    using statuses_insert_task[OF assms] assms by (auto simp: Post_tasks handler_def split: option.splits)
next
  case Get_tasks
  with assms show ?thesis by (simp add: handler_def snd_get_tasks)
next
  case (Put_tasks_id i)
  have "snd (put_task e i req db) =
          (case req_user req of
             None \<Rightarrow> db
           | Some user \<Rightarrow> snd (update_task e (body_title req) (body_description req)
                                (body_priority req) (body_status req) (body_deadline req) i
                                (user_id user) db))"
    by (simp add: put_task_def split: option.splits prod.splits sum.splits list.splits)
  then show ?thesis
    using statuses_update_task[OF assms] assms by (auto simp: Put_tasks_id handler_def split: option.splits)
next
  case (Delete_tasks_id i)
  have "snd (del_task e i req db) =
          (case req_user req of
             None \<Rightarrow> db
           | Some user \<Rightarrow> snd (delete_task e i (user_id user) db))"
    by (simp add: del_task_def split: option.splits prod.splits sum.splits list.splits)
  then show ?thesis
    using statuses_delete_task[OF assms] assms by (auto simp: Delete_tasks_id handler_def split: option.splits)
next
  case Get_dashboard_stats
  with assms show ?thesis by (simp add: handler_def snd_dashboard_stats)
qed

lemma statuses_app:
  assumes "statuses_defined db"
  shows "statuses_defined (snd (app e req db))"
  using assms statuses_handler[OF assms]
  by (auto simp: app_def authenticateToken_def Let_def split: option.splits)

text \<open>Whatever requests are served, starting with no tasks, no task has a NULL status.\<close>

lemma statuses_run: "statuses_defined db \<Longrightarrow> statuses_defined (run steps db)"
  by (induction steps arbitrary: db) (auto simp: statuses_app)

lemma statuses_from_empty: "tasks db = [] \<Longrightarrow> statuses_defined (run steps db)"
  by (rule statuses_run) (simp add: statuses_defined_def)

text \<open>
  C6. For a verified request to GET /dashboard/stats the answer is 200 with five counts
  over the tasks owned by the principal: all of them; those whose status is exactly
  \<open>Completed\<close>; those whose status is exactly \<open>Pending\<close>; those whose priority is exactly
  \<open>High\<close>; and the overdue ones, whose status is not \<open>Completed\<close> and whose deadline is
  strictly before the server's current time. The store is the application's: no task has
  a NULL status (\<open>statuses_run\<close>: no sequence of requests produces one). The store is not
  changed.
\<close>

theorem dashboard_counts:
  assumes "req_route req = Get_dashboard_stats" and "verified_as e req user"
      and "statuses_defined db"
  shows "app e req db =
     (json (Json_stats
        \<lparr>totalTasks = length (filter (\<lambda>r. tasks_user_id r = user_id user) (tasks db)),
         completedTasks = length (filter (\<lambda>r. tasks_user_id r = user_id user
                                              \<and> status r = Some ''Completed'') (tasks db)),
         pendingTasks = length (filter (\<lambda>r. tasks_user_id r = user_id user
                                            \<and> status r = Some ''Pending'') (tasks db)),
         highPriorityTasks = length (filter (\<lambda>r. tasks_user_id r = user_id user
                                                 \<and> priority r = Some ''High'') (tasks db)),
         overdueTasks = length (filter (\<lambda>r. tasks_user_id r = user_id user
                                \<and> status r \<noteq> Some ''Completed''
                                \<and> (\<exists>d. deadline r = Some d \<and> d < db_now e))
                           (tasks db))\<rparr>), db)"
proof -
  have od: "filter (\<lambda>r. tasks_user_id r = user_id user
                                \<and> status r \<noteq> None \<and> status r \<noteq> Some ''Completed''
                                \<and> (case deadline r of None \<Rightarrow> False | Some t \<Rightarrow> t < db_now e))
                           (tasks db)
          = filter (\<lambda>r. tasks_user_id r = user_id user
                                \<and> status r \<noteq> Some ''Completed''
                                \<and> (\<exists>d. deadline r = Some d \<and> d < db_now e))
                           (tasks db)"
    using assms(3)
    by (intro filter_cong refl) (auto simp: statuses_defined_def list_all_iff split: option.splits)
  have "app e req db = dashboard_stats e (req\<lparr>req_user := Some user\<rparr>) db"
    using app_verified[of req e user db] assms(1,2) by (simp add: protected_def handler_def)
  then show ?thesis
    using dashboard_stats_answer[of "req\<lparr>req_user := Some user\<rparr>" user e db] od by simp
qed

lemma status_counts_le:
  "length (filter (\<lambda>r. P r \<and> status r = Some a) rows)
     + length (filter (\<lambda>r. P r \<and> status r = Some b) rows) \<le> length (filter P rows)"
  if "a \<noteq> b"
  using that by (induction rows) auto

text \<open>
  C7. For every store and every verified request to GET /dashboard/stats the answer
  carries counts with \<open>completedTasks + pendingTasks \<le> totalTasks\<close>.
\<close>

theorem stats_sum:
  assumes "req_route req = Get_dashboard_stats" and "verified_as e req user"
  shows "\<exists>s. app e req db = (json (Json_stats s), db)
            \<and> completedTasks s + pendingTasks s \<le> totalTasks s"
proof -
  have "app e req db = dashboard_stats e (req\<lparr>req_user := Some user\<rparr>) db"
    using app_verified[of req e user db] assms(1,2) by (simp add: protected_def handler_def)
  then show ?thesis
    using dashboard_stats_answer[of "req\<lparr>req_user := Some user\<rparr>" user e db]
          status_counts_le[of "''Completed''" "''Pending''" "\<lambda>r. tasks_user_id r = user_id user" "tasks db"]
    by (simp add: json_def)
qed

lemma sample_verified_A:
  "verified_as sample_env (request_to r (Some ''Bearer tokA'')) \<lparr>user_id = 1, iat = 0, exp = 3600\<rparr>"
  by (simp add: verified_as_def request_to_def sample_env_def extract_token_def truthy_def)

theorem dashboard_counts_witness:
  "verified_as sample_env (request_to Get_dashboard_stats (Some ''Bearer tokA''))
      \<lparr>user_id = 1, iat = 0, exp = 3600\<rparr>
   \<and> statuses_defined sample_db
   \<and> app sample_env (request_to Get_dashboard_stats (Some ''Bearer tokA'')) sample_db
      = (json (Json_stats \<lparr>totalTasks = 2, completedTasks = 1, pendingTasks = 1,
                            highPriorityTasks = 1, overdueTasks = 1\<rparr>), sample_db)"
proof -
  have v: "verified_as sample_env (request_to Get_dashboard_stats (Some ''Bearer tokA''))
      \<lparr>user_id = 1, iat = 0, exp = 3600\<rparr>"
    by (rule sample_verified_A)
  have s: "statuses_defined sample_db"
    by (simp add: statuses_defined_def sample_db_def)
  have r: "req_route (request_to Get_dashboard_stats (Some ''Bearer tokA'')) = Get_dashboard_stats"
    by (simp add: request_to_def)
  show ?thesis
    using dashboard_counts[OF r v s] v s
    by (simp add: sample_db_def sample_env_def numeral_2_eq_2)
qed

theorem stats_sum_witness:
  "verified_as sample_env (request_to Get_dashboard_stats (Some ''Bearer tokB''))
      \<lparr>user_id = 2, iat = 0, exp = 3600\<rparr>
   \<and> (\<exists>s. app sample_env (request_to Get_dashboard_stats (Some ''Bearer tokB'')) sample_db
            = (json (Json_stats s), sample_db)
          \<and> completedTasks s + pendingTasks s \<le> totalTasks s)"
proof -
  have v: "verified_as sample_env (request_to Get_dashboard_stats (Some ''Bearer tokB''))
      \<lparr>user_id = 2, iat = 0, exp = 3600\<rparr>"
    by (simp add: verified_as_def request_to_def sample_env_def extract_token_def truthy_def)
  have r: "req_route (request_to Get_dashboard_stats (Some ''Bearer tokB'')) = Get_dashboard_stats"
    by (simp add: request_to_def)
  show ?thesis
    using stats_sum[OF r v, of sample_db] v by simp
qed

subsection \<open>Characters, patterns and substrings\<close>

lemma utf8_chars_bytes: "ch \<in> set (utf8_chars s) \<Longrightarrow> set ch \<subseteq> set s"
proof (induction s arbitrary: ch rule: utf8_chars.induct)
  case 1
  then show ?case by simp
next
  case (2 c cs)
  from "2.prems" consider "ch = c # take (utf8_len c - 1) cs"
    | "ch \<in> set (utf8_chars (drop (utf8_len c - 1) cs))"
    by auto
  then show ?case
  proof cases
    case 1
    then show ?thesis by (auto dest: in_set_takeD)
  next
    case 2
    from "2.IH"[OF this] show ?thesis by (auto dest: in_set_dropD)
  qed
qed

lemma utf8_chars_append:
  "acceptable s \<Longrightarrow> utf8_chars (s @ t) = utf8_chars s @ utf8_chars t"
proof (induction s rule: utf8_chars.induct)
  case 1
  then show ?case by simp
next
  case (2 c cs)
  let ?n = "utf8_len c - 1"
  from "2.prems" have ok: "utf8_char_ok (c # take ?n cs)" and rest: "acceptable (drop ?n cs)"
    by (simp_all add: acceptable_def)
  from ok have n: "?n \<le> length cs"
    by (simp add: utf8_char_ok_def min_def split: if_splits)
  then have "take ?n (cs @ t) = take ?n cs" "drop ?n (cs @ t) = drop ?n cs @ t"
    by simp_all
  with "2.IH"[OF rest] show ?case by simp
qed

lemma acceptable_append: "acceptable s \<Longrightarrow> acceptable t \<Longrightarrow> acceptable (s @ t)"
  by (simp add: acceptable_def utf8_chars_append)

lemma acceptable_percent: "acceptable ''%''"
  by code_simp

lemma utf8_chars_pattern:
  assumes "acceptable w"
  shows "utf8_chars (CHR ''%'' # w @ ''%'') = ''%'' # utf8_chars w @ [''%'']"
proof -
  have "utf8_chars (CHR ''%'' # w @ ''%'') = ''%'' # utf8_chars (w @ ''%'')"
    by (simp add: utf8_len_def)
  also have "utf8_chars (w @ ''%'') = utf8_chars w @ utf8_chars ''%''"
    using assms by (rule utf8_chars_append)
  also have "utf8_chars ''%'' = [''%'']"
    by (simp add: utf8_len_def)
  finally show ?thesis .
qed

lemma acceptable_pattern: "acceptable w \<Longrightarrow> acceptable (CHR ''%'' # w @ ''%'')"
  using acceptable_append[OF acceptable_percent acceptable_append[OF _ acceptable_percent], of w]
  by simp

text \<open>A list of characters none of which is a wildcard or the escape.\<close>

lemma like_match_literal:
  "list_all (\<lambda>c. \<not> wildcard c) s \<Longrightarrow>
   like_match (s @ ps) t \<longleftrightarrow> (\<exists>r. t = s @ r \<and> like_match ps r)"
proof (induction s arbitrary: t)
  case Nil
  then show ?case by simp
next
  case (Cons c s)
  then have c: "c \<noteq> ''%''" "c \<noteq> ''_''" "c \<noteq> [CHR 0x5C]"
    and s: "list_all (\<lambda>c. \<not> wildcard c) s"
    by (simp_all add: wildcard_def)
  have step: "like_match (c # s @ ps) t
                = (case t of [] \<Rightarrow> False | x # xs \<Rightarrow> x = c \<and> like_match (s @ ps) xs)"
    using c by simp
  show ?case
  proof (cases t)
    case Nil
    with step show ?thesis by simp
  next
    case (Cons x xs)
    with step Cons.IH[OF s, of xs] show ?thesis by auto
  qed
qed

lemma like_match_percent: "like_match [''%''] t"
  by (induction t) simp_all

lemma like_match_any_prefix:
  "like_match (''%'' # ps) t \<longleftrightarrow> (\<exists>a b. t = a @ b \<and> like_match ps b)"
proof (induction t)
  case Nil
  then show ?case by simp
next
  case (Cons x xs)
  have "like_match (''%'' # ps) (x # xs)
          \<longleftrightarrow> like_match ps (x # xs) \<or> like_match (''%'' # ps) xs"
    by simp
  also have "\<dots> \<longleftrightarrow> like_match ps (x # xs) \<or> (\<exists>a b. xs = a @ b \<and> like_match ps b)"
    using Cons.IH by simp
  also have "\<dots> \<longleftrightarrow> (\<exists>a b. x # xs = a @ b \<and> like_match ps b)"
  proof
    assume "like_match ps (x # xs) \<or> (\<exists>a b. xs = a @ b \<and> like_match ps b)"
    then show "\<exists>a b. x # xs = a @ b \<and> like_match ps b"
    proof
      assume "like_match ps (x # xs)"
      then have "x # xs = [] @ (x # xs) \<and> like_match ps (x # xs)" by simp
      then show ?thesis by blast
    next
      assume "\<exists>a b. xs = a @ b \<and> like_match ps b"
      then obtain a b where "xs = a @ b" "like_match ps b" by blast
      then have "x # xs = (x # a) @ b \<and> like_match ps b" by simp
      then show ?thesis by blast
    qed
  next
    assume "\<exists>a b. x # xs = a @ b \<and> like_match ps b"
    then obtain a b where ab: "x # xs = a @ b" "like_match ps b" by blast
    show "like_match ps (x # xs) \<or> (\<exists>a b. xs = a @ b \<and> like_match ps b)"
    proof (cases a)
      case Nil
      with ab show ?thesis by simp
    next
      case (Cons y ys)
      with ab have "xs = ys @ b" by simp
      with ab(2) show ?thesis by blast
    qed
  qed
  finally show ?case .
qed

lemma like_match_substring:
  assumes "list_all (\<lambda>c. \<not> wildcard c) s"
  shows "like_match (''%'' # s @ [''%'']) t \<longleftrightarrow> sublist s t"
proof -
  have "like_match (''%'' # s @ [''%'']) t \<longleftrightarrow> (\<exists>a b. t = a @ b \<and> like_match (s @ [''%'']) b)"
    by (rule like_match_any_prefix)
  also have "\<dots> \<longleftrightarrow> (\<exists>a b. t = a @ b \<and> (\<exists>r. b = s @ r))"
    using like_match_literal[OF assms, of "[''%'']"] like_match_percent by simp
  also have "\<dots> \<longleftrightarrow> sublist s t"
    by (auto simp: sublist_def)
  finally show ?thesis .
qed

text \<open>
  Under a locale that keeps the wildcards, the folded characters of a text without
  wildcards are no wildcards.
\<close>

lemma wildcard_bytes:
  "wildcard ch \<Longrightarrow> CHR ''%'' \<in> set ch \<or> CHR ''_'' \<in> set ch \<or> CHR 0x5C \<in> set ch"
  unfolding wildcard_def by (elim disjE) simp_all

lemma fold_case_no_wildcard:
  assumes "keeps_wildcards e" and "wildcard_free w"
  shows "list_all (\<lambda>c. \<not> wildcard c) (fold_case e w)"
proof -
  have nw: "CHR ''%'' \<notin> set w" "CHR ''_'' \<notin> set w" "CHR 0x5C \<notin> set w"
    using assms(2) by (auto simp: wildcard_free_def list_all_iff)
  have "\<not> wildcard (lower_char e ch)" if "ch \<in> set (utf8_chars w)" for ch
  proof
    assume w: "wildcard (lower_char e ch)"
    have sub: "set ch \<subseteq> set w"
      by (rule utf8_chars_bytes[OF that])
    from assms(1) w have "lower_char e ch = ch"
      unfolding keeps_wildcards_def by blast
    with w have "wildcard ch" by simp
    from wildcard_bytes[OF this] sub nw show False by blast
  qed
  then show ?thesis
    by (simp add: fold_case_def list_all_iff)
qed

lemma ilike_substring:
  assumes "keeps_wildcards e" and "wildcard_free w" and "acceptable w"
  shows "ilike e t (CHR ''%'' # w @ ''%'') \<longleftrightarrow> sublist (fold_case e w) (fold_case e t)"
proof -
  have "wildcard ''%''"
    by (simp add: wildcard_def)
  then have p: "lower_char e ''%'' = ''%''"
    using assms(1) unfolding keeps_wildcards_def by blast
  have "fold_case e (CHR ''%'' # w @ ''%'') = ''%'' # fold_case e w @ [''%'']"
    unfolding fold_case_def utf8_chars_pattern[OF assms(3)] using p by simp
  then show ?thesis
    using like_match_substring[OF fold_case_no_wildcard[OF assms(1,2)], of "fold_case e t"]
    by (simp add: ilike_def)
qed

lemma pattern_found_substring:
  "keeps_wildcards e \<Longrightarrow> wildcard_free w \<Longrightarrow> acceptable w \<Longrightarrow>
   pattern_found e w field = ci_substring e w field"
  using ilike_substring[of e w]
  by (cases field) (simp_all add: pattern_found_def ci_substring_def)

text \<open>The locale of the small world keeps the wildcards.\<close>

lemma to_lower_not_wildcard:
  "to_lower c = CHR ''%'' \<or> to_lower c = CHR ''_'' \<or> to_lower c = CHR 0x5C \<Longrightarrow> to_lower c = c"
  by (auto simp: to_lower_def char_of_eq_iff take_bit_eq_mod split: if_splits)

lemma to_lower_wildcard:
  "to_lower CHR ''%'' = CHR ''%''" "to_lower CHR ''_'' = CHR ''_''" "to_lower CHR 0x5C = CHR 0x5C"
  by (simp_all add: to_lower_def)

lemma sample_keeps_wildcards: "keeps_wildcards sample_env"
proof -
  have 1: "map to_lower c = c" if "wildcard c" for c
    using that unfolding wildcard_def by (elim disjE) (simp_all add: to_lower_wildcard)
  have 2: "map to_lower c = c" if "wildcard (map to_lower c)" for c
  proof -
    from that obtain x where c: "c = [x]"
      and x: "to_lower x = CHR ''%'' \<or> to_lower x = CHR ''_'' \<or> to_lower x = CHR 0x5C"
      unfolding wildcard_def by (cases c) auto
    from to_lower_not_wildcard[OF x] c show ?thesis by simp
  qed
  show ?thesis
    using 1 2 by (auto simp: keeps_wildcards_def sample_env_def)
qed

subsection \<open>The task query\<close>

lemma show_nat_numeral: "show_nat 2 = ''2''" "show_nat 3 = ''3''" "show_nat 4 = ''4''"
  by code_simp+

lemma show_nat_small:
  "show_nat (Suc (Suc 0)) = ''2''" "show_nat (Suc (Suc (Suc 0))) = ''3''"
  "show_nat (Suc (Suc (Suc (Suc 0)))) = ''4''"
  using show_nat_numeral by (simp_all add: eval_nat_numeral)

lemma tasks_query_text:
  "fst (tasks_query uid s p q) =
     ''SELECT * FROM tasks WHERE user_id = $1'' @
     (if truthy s then '' AND status = $2'' else []) @
     (if truthy p then (if truthy s then '' AND priority = $3'' else '' AND priority = $2'')
      else []) @
     (if truthy q then
        (if truthy s \<and> truthy p then '' AND (title ILIKE $4 OR description ILIKE $4)''
         else if truthy s \<or> truthy p then '' AND (title ILIKE $3 OR description ILIKE $3)''
         else '' AND (title ILIKE $2 OR description ILIKE $2)'')
      else [])"
  by (simp add: tasks_query_def Let_def show_nat_small)

lemma tasks_query_params:
  "snd (tasks_query uid s p q) =
     SInt uid # (if truthy s then [text_param s] else []) @
     (if truthy p then [text_param p] else []) @
     (if truthy q then [SText (''%'' @ to_string q @ ''%'')] else [])"
  by (simp add: tasks_query_def Let_def)

lemma parse_tasks_query:
  "parse_select ''SELECT * FROM tasks WHERE user_id = $1''
     = Some (Star, ''tasks'', [[Atom ''user_id'' Op_eq (Param 1)]])"
  "parse_select ''SELECT * FROM tasks WHERE user_id = $1 AND status = $2''
     = Some (Star, ''tasks'', [[Atom ''user_id'' Op_eq (Param 1)], [Atom ''status'' Op_eq (Param 2)]])"
  "parse_select ''SELECT * FROM tasks WHERE user_id = $1 AND priority = $2''
     = Some (Star, ''tasks'', [[Atom ''user_id'' Op_eq (Param 1)], [Atom ''priority'' Op_eq (Param 2)]])"
  "parse_select ''SELECT * FROM tasks WHERE user_id = $1 AND (title ILIKE $2 OR description ILIKE $2)''
     = Some (Star, ''tasks'', [[Atom ''user_id'' Op_eq (Param 1)],
          [Atom ''title'' Op_ilike (Param 2), Atom ''description'' Op_ilike (Param 2)]])"
  "parse_select ''SELECT * FROM tasks WHERE user_id = $1 AND status = $2 AND priority = $3''
     = Some (Star, ''tasks'', [[Atom ''user_id'' Op_eq (Param 1)], [Atom ''status'' Op_eq (Param 2)],
          [Atom ''priority'' Op_eq (Param 3)]])"
  "parse_select ''SELECT * FROM tasks WHERE user_id = $1 AND status = $2 AND (title ILIKE $3 OR description ILIKE $3)''
     = Some (Star, ''tasks'', [[Atom ''user_id'' Op_eq (Param 1)], [Atom ''status'' Op_eq (Param 2)],
          [Atom ''title'' Op_ilike (Param 3), Atom ''description'' Op_ilike (Param 3)]])"
  "parse_select ''SELECT * FROM tasks WHERE user_id = $1 AND priority = $2 AND (title ILIKE $3 OR description ILIKE $3)''
     = Some (Star, ''tasks'', [[Atom ''user_id'' Op_eq (Param 1)], [Atom ''priority'' Op_eq (Param 2)],
          [Atom ''title'' Op_ilike (Param 3), Atom ''description'' Op_ilike (Param 3)]])"
  "parse_select ''SELECT * FROM tasks WHERE user_id = $1 AND status = $2 AND priority = $3 AND (title ILIKE $4 OR description ILIKE $4)''
     = Some (Star, ''tasks'', [[Atom ''user_id'' Op_eq (Param 1)], [Atom ''status'' Op_eq (Param 2)],
          [Atom ''priority'' Op_eq (Param 3)],
          [Atom ''title'' Op_ilike (Param 4), Atom ''description'' Op_ilike (Param 4)]])"
  by code_simp+

lemma compare_ilike_found:
  "sql_compare e Op_ilike (text_param v) (SText (CHR ''%'' # w @ ''%'')) = Some True
     \<longleftrightarrow> pattern_found e w v"
  by (cases v) (auto simp: text_param_def pattern_found_def)

lemma index_nth: "index xs i = (if i < length xs then Some (xs ! i) else None)"
  by (induction xs i rule: index.induct) auto

lemma text_param_Some: "text_param (Some v) = SText v"
  by (simp add: text_param_def)

lemmas tasks_query_defs =
  db_select_def parse_tasks_query run_select_def params_ok_def cond_params_def bind_cond_def
  bind_atom_def tasks_column_def bind_operand_def convert_text acceptable_pattern holds_True
  project_def
  compare_eq_text compare_ilike_found select_tasks_def nonempty_def
  to_string_def index_nth text_param_Some

lemma db_select_tasks_query:
  assumes "accepted s" and "accepted p" and "accepted q"
  shows "db_select e (fst (tasks_query uid s p q)) (snd (tasks_query uid s p q)) db
     = Inr (map Task
         (select_tasks (pattern_found e) uid (nonempty s) (nonempty p) (nonempty q) (tasks db)))"
proof (cases "truthy s")
  case True
  then obtain v where s: "s = Some v" "v \<noteq> []" by (cases s) (auto simp: truthy_def)
  with assms(1) have av: "acceptable v" by (simp add: accepted_def)
  show ?thesis
  proof (cases "truthy p")
    case True
    then obtain w where p: "p = Some w" "w \<noteq> []" by (cases p) (auto simp: truthy_def)
    with assms(2) have aw: "acceptable w" by (simp add: accepted_def)
    show ?thesis
    proof (cases "truthy q")
      case True
      then obtain x where q: "q = Some x" "x \<noteq> []" by (cases q) (auto simp: truthy_def)
      with assms(3) have ax: "acceptable x" by (simp add: accepted_def)
      have t: "truthy (Some v)" "truthy (Some w)" "truthy (Some x)"
        using s p q by (simp_all add: truthy_def)
      show ?thesis unfolding tasks_query_text tasks_query_params s p q
        using t av aw ax by (simp add: tasks_query_defs) 
    next
      case False
      have t: "truthy (Some v)" "truthy (Some w)"
        using s p by (simp_all add: truthy_def)
      show ?thesis unfolding tasks_query_text tasks_query_params s p
        using t av aw False by (simp add: tasks_query_defs)
    qed
  next
    case False
    show ?thesis
    proof (cases "truthy q")
      case True
      then obtain x where q: "q = Some x" "x \<noteq> []" by (cases q) (auto simp: truthy_def)
      with assms(3) have ax: "acceptable x" by (simp add: accepted_def)
      have t: "truthy (Some v)" "truthy (Some x)"
        using s q by (simp_all add: truthy_def)
      show ?thesis unfolding tasks_query_text tasks_query_params s q
        using t av ax \<open>\<not> truthy p\<close> by (simp add: tasks_query_defs)
    next
      case nq: False
      have t: "truthy (Some v)"
        using s by (simp_all add: truthy_def)
      show ?thesis unfolding tasks_query_text tasks_query_params s
        using t av False nq by (simp add: tasks_query_defs)
    qed
  qed
next
  case ns: False
  show ?thesis
  proof (cases "truthy p")
    case True
    then obtain w where p: "p = Some w" "w \<noteq> []" by (cases p) (auto simp: truthy_def)
    with assms(2) have aw: "acceptable w" by (simp add: accepted_def)
    show ?thesis
    proof (cases "truthy q")
      case True
      then obtain x where q: "q = Some x" "x \<noteq> []" by (cases q) (auto simp: truthy_def)
      with assms(3) have ax: "acceptable x" by (simp add: accepted_def)
      have t: "truthy (Some w)" "truthy (Some x)"
        using p q by (simp_all add: truthy_def)
      show ?thesis unfolding tasks_query_text tasks_query_params p q
        using t aw ax ns by (simp add: tasks_query_defs)
    next
      case False
      have t: "truthy (Some w)"
        using p by (simp_all add: truthy_def)
      show ?thesis unfolding tasks_query_text tasks_query_params p
        using t aw False ns by (simp add: tasks_query_defs)
    qed
  next
    case np: False
    show ?thesis
    proof (cases "truthy q")
      case True
      then obtain x where q: "q = Some x" "x \<noteq> []" by (cases q) (auto simp: truthy_def)
      with assms(3) have ax: "acceptable x" by (simp add: accepted_def)
      have t: "truthy (Some x)"
        using q by (simp_all add: truthy_def)
      show ?thesis unfolding tasks_query_text tasks_query_params q
        using t ax ns np by (simp add: tasks_query_defs)
    next
      case False
      show ?thesis unfolding tasks_query_text tasks_query_params
        using False ns np by (simp add: tasks_query_defs)
    qed
  qed
qed


lemma get_tasks_answer:
  assumes "req_user req = Some user"
      and "accepted (query_status req)" and "accepted (query_priority req)"
      and "accepted (query_search req)"
  shows "get_tasks e req db =
     (json (Json_rows (map Task
        (select_tasks (pattern_found e) (user_id user) (nonempty (query_status req))
           (nonempty (query_priority req)) (nonempty (query_search req)) (tasks db)))), db)"
proof -
  obtain queryText queryParams where
    q: "tasks_query (user_id user) (query_status req) (query_priority req) (query_search req)
          = (queryText, queryParams)"
    by (cases "tasks_query (user_id user) (query_status req) (query_priority req)
                 (query_search req)")
  then show ?thesis
    using assms(1)
      db_select_tasks_query[OF assms(2-4), of e "user_id user" db]
    by (simp add: get_tasks_def)
qed

lemma app_get_tasks:
  assumes "req_route req = Get_tasks" and "verified_as e req user"
      and "accepted (query_status req)" and "accepted (query_priority req)"
      and "accepted (query_search req)"
  shows "app e req db =
           (json (Json_rows (map Task
              (select_tasks (pattern_found e) (user_id user) (nonempty (query_status req))
                 (nonempty (query_priority req)) (nonempty (query_search req)) (tasks db)))), db)"
proof -
  have a: "app e req db = get_tasks e (req\<lparr>req_user := Some user\<rparr>) db"
    using app_verified[of req e user db] assms(1,2) by (simp add: protected_def handler_def)
  show ?thesis
    using get_tasks_answer[of "req\<lparr>req_user := Some user\<rparr>" user e db] a assms(3-5) by simp
qed

text \<open>
  C3. For a verified request to GET /tasks whose filters the server accepts as texts
  (UTF-8 without U+0000), the answer is 200 with exactly the tasks owned by the principal
  that pass every filter that is present and not the empty string: status and priority
  by equality, search by the ILIKE pattern \<open>%search%\<close> on the title or on the
  description. When the search text has no \<open>%\<close>, \<open>_\<close> or backslash (and the locale's case
  folding keeps these three characters apart from the others), that pattern finds
  exactly the fields that contain the search text as a substring, letter case ignored.
  A filter that is absent or empty does not restrict; the store is not changed. (As the
  claim words it, with every present filter applied and the search a plain substring
  test, the statement fails: see the counterexample.)
\<close>

theorem filtered_tasks:
  assumes "req_route req = Get_tasks" and "verified_as e req user"
      and "accepted (query_status req)" and "accepted (query_priority req)"
      and "accepted (query_search req)"
  shows "app e req db =
           (json (Json_rows (map Task
              (select_tasks (pattern_found e) (user_id user) (nonempty (query_status req))
                 (nonempty (query_priority req)) (nonempty (query_search req)) (tasks db)))), db)
       \<and> (keeps_wildcards e
            \<and> (case query_search req of None \<Rightarrow> True | Some w \<Rightarrow> wildcard_free w) \<longrightarrow>
           app e req db =
             (json (Json_rows (map Task
                (select_tasks (ci_substring e) (user_id user) (nonempty (query_status req))
                   (nonempty (query_priority req)) (nonempty (query_search req)) (tasks db)))), db))"
proof -
  note g = app_get_tasks[OF assms, of db]
  have c: "select_tasks (pattern_found e) uid s p (nonempty q) rows
             = select_tasks (ci_substring e) uid s p (nonempty q) rows"
    if "keeps_wildcards e" "accepted q" "case q of None \<Rightarrow> True | Some w \<Rightarrow> wildcard_free w"
    for uid s p q rows
    using that
    by (cases q) (auto simp: select_tasks_def nonempty_def accepted_def pattern_found_substring
                       intro!: filter_cong)
  show ?thesis using g c[OF _ assms(5)] by simp
qed

text \<open>
  With A's token, \<open>search=_\<close> returns both tasks of A, and neither title nor description
  of either contains an underscore; \<open>status=\<close> (empty) returns both tasks of A, and
  neither has the empty status.
\<close>

theorem filtered_tasks_counterexample:
  "fst (app sample_env ((request_to Get_tasks (Some ''Bearer tokA''))\<lparr>query_search := Some ''_''\<rparr>)
          sample_db)
     \<noteq> json (Json_rows (map Task
           (select_tasks (ci_substring sample_env) 1 None None (Some ''_'') (tasks sample_db))))
   \<and> fst (app sample_env ((request_to Get_tasks (Some ''Bearer tokA''))\<lparr>query_status := Some []\<rparr>)
          sample_db)
     \<noteq> json (Json_rows (map Task
           (select_tasks (ci_substring sample_env) 1 (Some []) None None (tasks sample_db))))"
  by code_simp

lemma sample_report_tasks:
  "select_tasks (ci_substring sample_env) 1 (nonempty (Some ''Pending'')) (nonempty None)
      (nonempty (Some ''report'')) (tasks sample_db) = [hd (tasks sample_db)]"
  by code_simp

lemma sample_accepted:
  "accepted None" "accepted (Some [])" "accepted (Some ''Pending'')" "accepted (Some ''report'')"
  "accepted (Some ''High'')" "accepted (Some ''Completed'')"
  by code_simp+

theorem filtered_tasks_witness:
  "verified_as sample_env
      ((request_to Get_tasks (Some ''Bearer tokA''))
         \<lparr>query_status := Some ''Pending'', query_search := Some ''report''\<rparr>)
      \<lparr>user_id = 1, iat = 0, exp = 3600\<rparr>
   \<and> accepted (Some ''Pending'') \<and> accepted None \<and> accepted (Some ''report'')
   \<and> keeps_wildcards sample_env
   \<and> wildcard_free ''report''
   \<and> app sample_env
        ((request_to Get_tasks (Some ''Bearer tokA''))
           \<lparr>query_status := Some ''Pending'', query_search := Some ''report''\<rparr>) sample_db
      = (json (Json_rows [Task (hd (tasks sample_db))]), sample_db)"
proof -
  let ?req = "(request_to Get_tasks (Some ''Bearer tokA''))
                \<lparr>query_status := Some ''Pending'', query_search := Some ''report''\<rparr>"
  have v: "verified_as sample_env ?req \<lparr>user_id = 1, iat = 0, exp = 3600\<rparr>"
    by (simp add: verified_as_def request_to_def sample_env_def extract_token_def truthy_def)
  have r: "req_route ?req = Get_tasks"
    by (simp add: request_to_def)
  have w: "wildcard_free ''report''"
    by (simp add: wildcard_free_def)
  have q: "query_status ?req = Some ''Pending''" "query_priority ?req = None"
          "query_search ?req = Some ''report''"
    by (simp_all add: request_to_def)
  have a: "accepted (query_status ?req)" "accepted (query_priority ?req)"
          "accepted (query_search ?req)"
    by (simp_all add: q sample_accepted)
  show ?thesis
    using filtered_tasks[OF r v a, of sample_db, THEN conjunct2] v w sample_report_tasks
          sample_keeps_wildcards sample_accepted
    by (simp add: q)
qed

text \<open>
  C5. The text of the query does not contain the values of the filters: two requests
  that agree on which of the three filters are truthy (present and not the empty string)
  get the same text, whatever the values and the principals; and the values are bound
  as the parameters, after the principal, in the order status, priority, search.
\<close>

theorem query_text_by_presence:
  assumes "truthy s1 = truthy s2" and "truthy p1 = truthy p2" and "truthy q1 = truthy q2"
  shows "fst (tasks_query u1 s1 p1 q1) = fst (tasks_query u2 s2 p2 q2)
       \<and> snd (tasks_query u1 s1 p1 q1) =
           SInt u1 # (if truthy s1 then [text_param s1] else []) @
           (if truthy p1 then [text_param p1] else []) @
           (if truthy q1 then [SText (''%'' @ to_string q1 @ ''%'')] else [])"
  using assms by (simp add: tasks_query_text tasks_query_params)

theorem query_text_by_presence_witness:
  "truthy (Some ''Pending'') = truthy (Some ''x' OR 1=1 --'')
   \<and> truthy None = truthy (Some [])
   \<and> truthy (Some ''report'') = truthy (Some ''%'')
   \<and> fst (tasks_query 1 (Some ''Pending'') None (Some ''report''))
       = fst (tasks_query 2 (Some ''x' OR 1=1 --'') (Some []) (Some ''%''))
   \<and> snd (tasks_query 2 (Some ''x' OR 1=1 --'') (Some []) (Some ''%''))
       = [SInt 2, SText ''x' OR 1=1 --'', SText ''%%%'']"
  using query_text_by_presence[of "Some ''Pending''" "Some ''x' OR 1=1 --''" None "Some []"
          "Some ''report''" "Some ''%''" 1 2]
        query_text_by_presence[of "Some ''x' OR 1=1 --''" "Some ''x' OR 1=1 --''" "Some []"
          "Some []" "Some ''%''" "Some ''%''" 2 2]
  by (simp add: truthy_def text_param_def to_string_def)

text \<open>
  Two requests that both supply a status, one empty and one not, get different texts.
\<close>

theorem query_text_by_presence_counterexample:
  "fst (tasks_query 1 (Some []) None None) \<noteq> fst (tasks_query 1 (Some ''Pending'') None None)"
  by (simp add: tasks_query_text truthy_def)

text \<open>
  C10. A filter that is present but the empty string is treated as absent. The query
  (text and parameters) is the one built without it, so no predicate is added for it;
  and a verified request with such a filter is answered with the principal's tasks that
  pass the other filters, whatever their value in that dimension: all the principal's
  tasks when no other filter counts.
\<close>

theorem empty_filter_absent:
  assumes "req_route req = Get_tasks" and "verified_as e req user"
      and "accepted (query_status req)" and "accepted (query_priority req)"
      and "accepted (query_search req)"
  shows "(query_status req = Some [] \<longrightarrow>
            app e req db =
              (json (Json_rows (map Task
                 (select_tasks (pattern_found e) (user_id user) None
                    (nonempty (query_priority req)) (nonempty (query_search req))
                    (tasks db)))), db))
       \<and> (query_priority req = Some [] \<longrightarrow>
            app e req db =
              (json (Json_rows (map Task
                 (select_tasks (pattern_found e) (user_id user) (nonempty (query_status req))
                    None (nonempty (query_search req)) (tasks db)))), db))
       \<and> (query_search req = Some [] \<longrightarrow>
            app e req db =
              (json (Json_rows (map Task
                 (select_tasks (pattern_found e) (user_id user) (nonempty (query_status req))
                    (nonempty (query_priority req)) None (tasks db)))), db))
       \<and> (nonempty (query_status req) = None \<and> nonempty (query_priority req) = None
            \<and> nonempty (query_search req) = None \<longrightarrow>
            app e req db =
              (json (Json_rows (map Task
                 (filter (\<lambda>r. tasks_user_id r = user_id user) (tasks db)))), db))
       \<and> tasks_query uid (Some []) p q = tasks_query uid None p q
       \<and> tasks_query uid s (Some []) q = tasks_query uid s None q
       \<and> tasks_query uid s p (Some []) = tasks_query uid s p None
       \<and> tasks_query uid (Some []) (Some []) (Some [])
           = (''SELECT * FROM tasks WHERE user_id = $1'', [SInt uid])"
proof -
  note g = app_get_tasks[OF assms, of db]
  have n: "nonempty (Some []) = None"
    by (simp add: nonempty_def truthy_def)
  have all: "select_tasks found u None None None rows = filter (\<lambda>r. tasks_user_id r = u) rows"
    for found u rows
    by (simp add: select_tasks_def)
  have 1: "tasks_query uid (Some []) p q = tasks_query uid None p q" for uid p q
    by (simp add: tasks_query_def truthy_def)
  have 2: "tasks_query uid s (Some []) q = tasks_query uid s None q" for uid s q
    by (simp add: tasks_query_def truthy_def)
  have 3: "tasks_query uid s p (Some []) = tasks_query uid s p None" for uid s p
    by (simp add: tasks_query_def truthy_def)
  have 4: "tasks_query uid (Some []) (Some []) (Some [])
             = (''SELECT * FROM tasks WHERE user_id = $1'', [SInt uid])"
    by (simp add: tasks_query_def truthy_def)
  have 5: "tasks_query uid None None None
             = (''SELECT * FROM tasks WHERE user_id = $1'', [SInt uid])"
    by (simp add: tasks_query_def truthy_def)
  show ?thesis
    using g by (simp add: n all 1 2 3 5)
qed

lemma sample_high_tasks:
  "select_tasks (pattern_found sample_env) 1 None (nonempty (Some ''High'')) (nonempty None)
      (tasks sample_db) = [hd (tasks sample_db)]"
  "select_tasks (pattern_found sample_env) 1 None None None (tasks sample_db)
     = take 2 (tasks sample_db)"
  by code_simp+

theorem empty_filter_absent_witness:
  "verified_as sample_env
      ((request_to Get_tasks (Some ''Bearer tokA''))
         \<lparr>query_status := Some [], query_priority := Some ''High''\<rparr>)
      \<lparr>user_id = 1, iat = 0, exp = 3600\<rparr>
   \<and> accepted (Some []) \<and> accepted (Some ''High'') \<and> accepted None
   \<and> app sample_env
        ((request_to Get_tasks (Some ''Bearer tokA''))
           \<lparr>query_status := Some [], query_priority := Some ''High''\<rparr>) sample_db
      = (json (Json_rows [Task (hd (tasks sample_db))]), sample_db)
   \<and> app sample_env
        ((request_to Get_tasks (Some ''Bearer tokA''))
           \<lparr>query_status := Some [], query_search := Some []\<rparr>) sample_db
      = (json (Json_rows (map Task (take 2 (tasks sample_db)))), sample_db)"
proof -
  let ?r1 = "(request_to Get_tasks (Some ''Bearer tokA''))
               \<lparr>query_status := Some [], query_priority := Some ''High''\<rparr>"
  let ?r2 = "(request_to Get_tasks (Some ''Bearer tokA''))
               \<lparr>query_status := Some [], query_search := Some []\<rparr>"
  have v: "verified_as sample_env ?r1 \<lparr>user_id = 1, iat = 0, exp = 3600\<rparr>"
          "verified_as sample_env ?r2 \<lparr>user_id = 1, iat = 0, exp = 3600\<rparr>"
    by (simp_all add: verified_as_def request_to_def sample_env_def extract_token_def truthy_def)
  have r: "req_route ?r1 = Get_tasks" "req_route ?r2 = Get_tasks"
    by (simp_all add: request_to_def)
  have q1: "query_status ?r1 = Some []" "query_priority ?r1 = Some ''High''"
           "query_search ?r1 = None"
    by (simp_all add: request_to_def)
  have q2: "query_status ?r2 = Some []" "query_priority ?r2 = None" "query_search ?r2 = Some []"
    by (simp_all add: request_to_def)
  have a1: "accepted (query_status ?r1)" "accepted (query_priority ?r1)"
           "accepted (query_search ?r1)"
    by (simp_all add: q1 sample_accepted)
  have a2: "accepted (query_status ?r2)" "accepted (query_priority ?r2)"
           "accepted (query_search ?r2)"
    by (simp_all add: q2 sample_accepted)
  have n: "nonempty (Some []) = None" "nonempty None = None"
    by (simp_all add: nonempty_def truthy_def)
  show ?thesis
    using empty_filter_absent[OF r(1) v(1) a1, of sample_db]
          empty_filter_absent[OF r(2) v(2) a2, of sample_db]
          v sample_accepted sample_high_tasks
    by (simp add: q1 q2 n)
qed

subsection \<open>Login\<close>

lemma filter_find: "filter P xs = (case find P xs of None \<Rightarrow> [] | Some x \<Rightarrow> x # tl (filter P xs))"
  by (induction xs) (auto split: option.splits)

lemma parse_users_by_email:
  "parse_select ''SELECT * FROM users WHERE email = $1''
     = Some (Star, ''users'', [[Atom ''email'' Op_eq (Param 1)]])"
  by code_simp

lemma compare_null: "sql_compare e opc v SNull = None"
  by (cases v; cases opc) simp_all

lemma select_user:
  assumes "accepted email"
  shows "db_select e ''SELECT * FROM users WHERE email = $1'' [text_param email] db
     = Inr (map User (case email of None \<Rightarrow> []
                      | Some m \<Rightarrow> filter (\<lambda>u. users_email u = Some m) (users db)))"
proof (cases email)
  case None
  then show ?thesis
    by (simp add: db_select_def parse_users_by_email run_select_def params_ok_def cond_params_def
          bind_cond_def bind_atom_def users_column_def bind_operand_def holds_True project_def
          index_nth text_param_def compare_null)
next
  case (Some m)
  with assms have "acceptable m" by (simp add: accepted_def)
  with Some show ?thesis
    by (simp add: db_select_def parse_users_by_email run_select_def params_ok_def cond_params_def
          bind_cond_def bind_atom_def users_column_def bind_operand_def holds_True project_def
          index_nth text_param_Some convert_text compare_eq_text)
qed

lemma timespan_1h: "timespan ''1h'' = Some 3600"
  by code_simp

lemma login_answer:
  assumes "accepted (body_email req)"
  shows "login e req db =
     (case user_by_email db (body_email req) of
        None \<Rightarrow> (status_json 400 (Json_error ''User not found''), db)
      | Some user \<Rightarrow>
          (case body_password req of
             None \<Rightarrow> (caught Bcrypt_missing_argument, db)
           | Some p \<Rightarrow>
               if bcrypt_compare e p (users_password user)
               then (json (Json_token (jwt_encode e
                       \<lparr>user_id = users_user_id user, iat = date_now e,
                        exp = date_now e + 3600\<rparr>)), db)
               else (status_json 401 (Json_error ''Invalid password''), db)))"
proof (cases "body_email req")
  case None
  have "accepted None"
    by (simp add: accepted_def)
  from None select_user[OF this, of e db] show ?thesis
    by (simp add: login_def user_by_email_def)
next
  case (Some m)
  with assms have "accepted (Some m)"
    by simp
  note su = select_user[OF this, of e db]
  show ?thesis
  proof (cases "find (\<lambda>u. users_email u = Some m) (users db)")
    case None
    then have "filter (\<lambda>u. users_email u = Some m) (users db) = []"
      using filter_find[of "\<lambda>u. users_email u = Some m" "users db"] by simp
    with Some None show ?thesis
      by (simp add: login_def su user_by_email_def)
  next
    case (Some u)
    then obtain us where "filter (\<lambda>u. users_email u = Some m) (users db) = u # us"
      using filter_find[of "\<lambda>u. users_email u = Some m" "users db"] by simp
    with \<open>body_email req = Some m\<close> Some show ?thesis
      by (simp add: login_def su user_by_email_def compare_password_def jwt_sign_def
            timespan_1h split: option.splits)
  qed
qed

text \<open>
  An email that the server refuses as a text ends the request in the handler's
  \<open>catch\<close>: the answer is 500 with the server's message, and no row is read.
\<close>

lemma login_refused:
  assumes "req_route req = Post_login" and "body_email req = Some m" and "\<not> acceptable m"
  shows "app e req db = (caught (Invalid_text m), db)"
  using assms
  by (simp add: app_def protected_def handler_def login_def db_select_def parse_users_by_email
        run_select_def params_ok_def cond_params_def bind_cond_def bind_atom_def
        users_column_def bind_operand_def index_nth text_param_Some convert_def text_in_def)

text \<open>
  C8. POST /login with an email that the server accepts as a text (UTF-8 without U+0000):
  when no row of \<open>users\<close> has the given email the answer is 400; when the first such
  row's hash does not match the given password the answer is 401; when it matches the
  answer is 200 with the signed token whose payload is that row's user identifier, the
  issue time, and an expiry 3600 seconds after it. The store is not changed.
\<close>

theorem login_outcomes:
  assumes "req_route req = Post_login" and "accepted (body_email req)"
  shows "(user_by_email db (body_email req) = None \<longrightarrow>
            app e req db = (status_json 400 (Json_error ''User not found''), db))
       \<and> (\<forall>user p. user_by_email db (body_email req) = Some user \<and> body_password req = Some p
              \<and> \<not> bcrypt_compare e p (users_password user) \<longrightarrow>
            app e req db = (status_json 401 (Json_error ''Invalid password''), db))
       \<and> (\<forall>user p. user_by_email db (body_email req) = Some user \<and> body_password req = Some p
              \<and> bcrypt_compare e p (users_password user) \<longrightarrow>
            app e req db =
              (json (Json_token (jwt_encode e
                       \<lparr>user_id = users_user_id user, iat = date_now e,
                        exp = date_now e + 3600\<rparr>)), db))"
  using assms(1) by (simp add: app_def protected_def handler_def login_answer[OF assms(2)])

subsection \<open>Update and delete\<close>

lemma put_task_answer:
  assumes "req_user req = Some user" and "int4_in e i = Some n"
      and "timestamp_param e (body_deadline req) = Inr dl"
      and "list_all accepted
             [body_title req, body_description req, body_priority req, body_status req]"
  shows "put_task e i req db =
     (case filter (\<lambda>r. task_id r = n \<and> tasks_user_id r = user_id user) (tasks db) of
        [] \<Rightarrow> status_json 404 (Json_error ''Task not found'')
      | r # _ \<Rightarrow> json (Json_row (Some (Task
                  (r\<lparr>title := coalesce (body_title req) (title r),
                     description := coalesce (body_description req) (description r),
                     priority := coalesce (body_priority req) (priority r),
                     status := coalesce (body_status req) (status r),
                     deadline := coalesce dl (deadline r),
                     updated_at := db_now e\<rparr>)))),
      db\<lparr>tasks :=
           map (\<lambda>r. if task_id r = n \<and> tasks_user_id r = user_id user
                    then r\<lparr>title := coalesce (body_title req) (title r),
                           description := coalesce (body_description req) (description r),
                           priority := coalesce (body_priority req) (priority r),
                           status := coalesce (body_status req) (status r),
                           deadline := coalesce dl (deadline r),
                           updated_at := db_now e\<rparr>
                    else r) (tasks db)\<rparr>)"
  using assms(1-3) refused_accepted[OF assms(4)]
  by (simp add: put_task_def update_task_def Let_def split: list.splits)

text \<open>
  A text of the body that the server refuses ends the update in the handler's
  \<open>catch\<close>: the answer is 500 and the table is as it was.
\<close>

lemma put_task_refused:
  assumes "req_user req = Some user"
      and "refused [body_title req, body_description req, body_priority req, body_status req]
             = Some x"
  shows "put_task e i req db = (caught x, db)"
  using assms by (simp add: put_task_def update_task_def)

lemma del_task_answer:
  assumes "req_user req = Some user" and "int4_in e i = Some n"
  shows "del_task e i req db =
     (case filter (\<lambda>r. task_id r = n \<and> tasks_user_id r = user_id user) (tasks db) of
        [] \<Rightarrow> status_json 404 (Json_error ''Task not found'')
      | r # _ \<Rightarrow> json (Json_message ''Task deleted successfully''),
      db\<lparr>tasks := filter (\<lambda>r. \<not> (task_id r = n \<and> tasks_user_id r = user_id user)) (tasks db)\<rparr>)"
  using assms
  by (simp add: del_task_def delete_task_def Let_def split: list.splits)

lemma no_hit_filter:
  "\<not> list_ex P xs \<Longrightarrow> filter P xs = [] \<and> filter (\<lambda>r. \<not> P r) xs = xs
      \<and> map (\<lambda>r. if P r then f r else r) xs = xs"
  by (induction xs) auto

lemma hit_filter: "list_ex P xs \<Longrightarrow> \<exists>r rs. filter P xs = r # rs"
  by (induction xs) auto

text \<open>
  C2. Update and delete of a verified principal, with a route parameter the server reads
  as the integer \<open>n\<close> (and, for the update, a deadline it can read and texts it accepts,
  UTF-8 without U+0000): the statement hits the rows whose task identifier is \<open>n\<close> and
  whose owner is the principal, both at once.
  When no row is hit, also when a task \<open>n\<close> exists under another owner, the answer is
  404 (not 403) and the store is unchanged; when a row is hit the answer is 200.
\<close>

theorem not_found_unless_owner:
  assumes "verified_as e req user" and "int4_in e i = Some n"
  shows "(req_route req = Delete_tasks_id i
            \<and> \<not> list_ex (\<lambda>r. task_id r = n \<and> tasks_user_id r = user_id user) (tasks db) \<longrightarrow>
          app e req db = (status_json 404 (Json_error ''Task not found''), db))
       \<and> (req_route req = Put_tasks_id i \<and> timestamp_param e (body_deadline req) = Inr dl
            \<and> list_all accepted
                  [body_title req, body_description req, body_priority req, body_status req]
            \<and> \<not> list_ex (\<lambda>r. task_id r = n \<and> tasks_user_id r = user_id user) (tasks db) \<longrightarrow>
          app e req db = (status_json 404 (Json_error ''Task not found''), db))
       \<and> (req_route req = Delete_tasks_id i
            \<and> list_ex (\<lambda>r. task_id r = n \<and> tasks_user_id r = user_id user) (tasks db) \<longrightarrow>
          fst (app e req db) = json (Json_message ''Task deleted successfully''))
       \<and> (req_route req = Put_tasks_id i \<and> timestamp_param e (body_deadline req) = Inr dl
            \<and> list_all accepted
                  [body_title req, body_description req, body_priority req, body_status req]
            \<and> list_ex (\<lambda>r. task_id r = n \<and> tasks_user_id r = user_id user) (tasks db) \<longrightarrow>
          fst (fst (app e req db)) = 200)"
proof -
  let ?hit = "\<lambda>r. task_id r = n \<and> tasks_user_id r = user_id user"
  let ?req = "req\<lparr>req_user := Some user\<rparr>"
  have d: "app e req db = del_task e i ?req db" if "req_route req = Delete_tasks_id i"
    using app_verified[of req e user db] assms(1) that by (simp add: protected_def handler_def)
  have u: "app e req db = put_task e i ?req db" if "req_route req = Put_tasks_id i"
    using app_verified[of req e user db] assms(1) that by (simp add: protected_def handler_def)
  have 1: "app e req db = (status_json 404 (Json_error ''Task not found''), db)"
    if "req_route req = Delete_tasks_id i" "\<not> list_ex ?hit (tasks db)"
    using d[OF that(1)] del_task_answer[of ?req user e i n db] assms(2)
          no_hit_filter[OF that(2)]
    by simp
  have 2: "app e req db = (status_json 404 (Json_error ''Task not found''), db)"
    if "req_route req = Put_tasks_id i" "timestamp_param e (body_deadline req) = Inr dl"
       "list_all accepted
          [body_title req, body_description req, body_priority req, body_status req]"
       "\<not> list_ex ?hit (tasks db)"
    using u[OF that(1)] put_task_answer[of ?req user e i n dl db] assms(2) that(2,3)
          no_hit_filter[OF that(4)]
    by simp
  have 3: "fst (app e req db) = json (Json_message ''Task deleted successfully'')"
    if "req_route req = Delete_tasks_id i" "list_ex ?hit (tasks db)"
    using d[OF that(1)] del_task_answer[of ?req user e i n db] assms(2)
          hit_filter[OF that(2)]
    by auto
  have 4: "fst (fst (app e req db)) = 200"
    if "req_route req = Put_tasks_id i" "timestamp_param e (body_deadline req) = Inr dl"
       "list_all accepted
          [body_title req, body_description req, body_priority req, body_status req]"
       "list_ex ?hit (tasks db)"
    using u[OF that(1)] put_task_answer[of ?req user e i n dl db] assms(2) that(2,3)
          hit_filter[OF that(4)]
    by (auto simp: json_def)
  show ?thesis using 1 2 3 4 by blast
qed


text \<open>
  C4. An update by the owner of the task at position \<open>k\<close> of the table, with a deadline
  the server can read and texts it accepts (UTF-8 without U+0000), answers 200 and leaves
  at that position the task with each field of the body that is absent kept and
  each field that is present replaced, and with \<open>updated_at\<close> set to the server's current
  time whatever the body holds. With all five fields absent the task is unchanged but
  for \<open>updated_at\<close>, which moves forward when the clock is past the stored stamp. Tasks
  the statement does not hit are unchanged.
\<close>

theorem partial_update:
  assumes "req_route req = Put_tasks_id i" and "verified_as e req user"
      and "int4_in e i = Some n" and "timestamp_param e (body_deadline req) = Inr dl"
      and "k < length (tasks db)" and "tasks db ! k = r"
      and "task_id r = n" and "tasks_user_id r = user_id user"
      and "list_all accepted
             [body_title req, body_description req, body_priority req, body_status req]"
  shows "fst (fst (app e req db)) = 200
       \<and> length (tasks (snd (app e req db))) = length (tasks db)
       \<and> tasks (snd (app e req db)) ! k =
           r\<lparr>title := (case body_title req of None \<Rightarrow> title r | Some v \<Rightarrow> Some v),
             description := (case body_description req of None \<Rightarrow> description r | Some v \<Rightarrow> Some v),
             priority := (case body_priority req of None \<Rightarrow> priority r | Some v \<Rightarrow> Some v),
             status := (case body_status req of None \<Rightarrow> status r | Some v \<Rightarrow> Some v),
             deadline := (case dl of None \<Rightarrow> deadline r | Some t \<Rightarrow> Some t),
             updated_at := db_now e\<rparr>
       \<and> (body_title req = None \<and> body_description req = None \<and> body_priority req = None
            \<and> body_status req = None \<and> body_deadline req = None \<longrightarrow>
          tasks (snd (app e req db)) ! k = r\<lparr>updated_at := db_now e\<rparr>)
       \<and> (updated_at r < db_now e \<longrightarrow> updated_at r < updated_at (tasks (snd (app e req db)) ! k))
       \<and> (\<forall>j < length (tasks db).
             \<not> (task_id (tasks db ! j) = n \<and> tasks_user_id (tasks db ! j) = user_id user) \<longrightarrow>
             tasks (snd (app e req db)) ! j = tasks db ! j)"
proof -
  let ?req = "req\<lparr>req_user := Some user\<rparr>"
  let ?hit = "\<lambda>r. task_id r = n \<and> tasks_user_id r = user_id user"
  have u: "app e req db = put_task e i ?req db"
    using app_verified[of req e user db] assms(1,2) by (simp add: protected_def handler_def)
  have hit: "list_ex ?hit (tasks db)"
    using assms(5-8) by (auto simp: list_ex_iff)
  have acc: "list_all accepted
               [body_title ?req, body_description ?req, body_priority ?req, body_status ?req]"
    using assms(9) by simp
  note ans = put_task_answer[of ?req user e i n dl db, OF _ _ _ acc]
  have 1: "fst (fst (app e req db)) = 200"
    using u ans assms(3,4) hit_filter[OF hit] by (auto simp: json_def)
  have t: "tasks (snd (app e req db)) =
           map (\<lambda>r. if ?hit r
                    then r\<lparr>title := coalesce (body_title req) (title r),
                           description := coalesce (body_description req) (description r),
                           priority := coalesce (body_priority req) (priority r),
                           status := coalesce (body_status req) (status r),
                           deadline := coalesce dl (deadline r),
                           updated_at := db_now e\<rparr>
                    else r) (tasks db)"
    using u ans assms(3,4) by simp
  have 2: "length (tasks (snd (app e req db))) = length (tasks db)"
    by (simp add: t)
  have 3: "tasks (snd (app e req db)) ! k =
           r\<lparr>title := (case body_title req of None \<Rightarrow> title r | Some v \<Rightarrow> Some v),
             description := (case body_description req of None \<Rightarrow> description r | Some v \<Rightarrow> Some v),
             priority := (case body_priority req of None \<Rightarrow> priority r | Some v \<Rightarrow> Some v),
             status := (case body_status req of None \<Rightarrow> status r | Some v \<Rightarrow> Some v),
             deadline := (case dl of None \<Rightarrow> deadline r | Some t \<Rightarrow> Some t),
             updated_at := db_now e\<rparr>"
    using assms(5-8) by (simp add: t coalesce_def)
  have dl: "dl = None" if "body_deadline req = None"
    using assms(4) that by (simp add: timestamp_param_def)
  have 4: "tasks (snd (app e req db)) ! k = r\<lparr>updated_at := db_now e\<rparr>"
    if "body_title req = None \<and> body_description req = None \<and> body_priority req = None
            \<and> body_status req = None \<and> body_deadline req = None"
    using that dl by (simp add: 3)
  have 5: "updated_at (tasks (snd (app e req db)) ! k) = db_now e"
    by (simp add: 3)
  have 6: "tasks (snd (app e req db)) ! j = tasks db ! j"
    if "j < length (tasks db)" "\<not> ?hit (tasks db ! j)" for j
    using that by (auto simp: t)
  show ?thesis using 1 2 3 4 5 6 by simp
qed

lemma decimal_in_1: "decimal_in ''1'' = Some 1"
  by code_simp

theorem partial_update_witness:
  "verified_as sample_env sample_put \<lparr>user_id = 1, iat = 0, exp = 3600\<rparr>
   \<and> int4_in sample_env ''1'' = Some 1
   \<and> timestamp_param sample_env (body_deadline sample_put) = Inr None
   \<and> list_all accepted [body_title sample_put, body_description sample_put,
                         body_priority sample_put, body_status sample_put]
   \<and> tasks (snd (app sample_env sample_put sample_db)) ! 0
       = (tasks sample_db ! 0)\<lparr>status := Some ''Completed'', updated_at := 100\<rparr>
   \<and> tasks (snd (app sample_env (request_to (Put_tasks_id ''1'') (Some ''Bearer tokA'')) sample_db)) ! 0
       = (tasks sample_db ! 0)\<lparr>updated_at := 100\<rparr>"
proof -
  have v: "verified_as sample_env sample_put \<lparr>user_id = 1, iat = 0, exp = 3600\<rparr>"
    by (simp add: sample_put_def verified_as_def request_to_def sample_env_def extract_token_def
          truthy_def)
  have v': "verified_as sample_env (request_to (Put_tasks_id ''1'') (Some ''Bearer tokA''))
              \<lparr>user_id = 1, iat = 0, exp = 3600\<rparr>"
    by (rule sample_verified_A)
  have n: "int4_in sample_env ''1'' = Some 1"
    by (simp add: sample_env_def decimal_in_1)
  have d: "timestamp_param sample_env (body_deadline sample_put) = Inr None"
    by (simp add: sample_put_def request_to_def timestamp_param_def)
  have d': "timestamp_param sample_env
              (body_deadline (request_to (Put_tasks_id ''1'') (Some ''Bearer tokA''))) = Inr None"
    by (simp add: request_to_def timestamp_param_def)
  have k: "0 < length (tasks sample_db)" "task_id (tasks sample_db ! 0) = 1"
          "tasks_user_id (tasks sample_db ! 0) = user_id \<lparr>user_id = 1, iat = 0, exp = 3600\<rparr>"
    by (simp_all add: sample_db_def)
  have r: "req_route sample_put = Put_tasks_id ''1''"
          "req_route (request_to (Put_tasks_id ''1'') (Some ''Bearer tokA'')) = Put_tasks_id ''1''"
    by (simp_all add: sample_put_def request_to_def)
  have c: "acceptable ''Completed''"
    by code_simp
  have a: "list_all accepted [body_title sample_put, body_description sample_put,
                              body_priority sample_put, body_status sample_put]"
    using c by (simp add: sample_put_def request_to_def accepted_def)
  have a': "list_all accepted
              [body_title (request_to (Put_tasks_id ''1'') (Some ''Bearer tokA'')),
               body_description (request_to (Put_tasks_id ''1'') (Some ''Bearer tokA'')),
               body_priority (request_to (Put_tasks_id ''1'') (Some ''Bearer tokA'')),
               body_status (request_to (Put_tasks_id ''1'') (Some ''Bearer tokA''))]"
    by (simp add: request_to_def accepted_def)
  show ?thesis
    using partial_update[OF r(1) v n d k(1) refl k(2,3) a]
          partial_update[OF r(2) v' n d' k(1) refl k(2,3) a'] v n d a
    by (simp add: sample_put_def request_to_def sample_env_def)
qed

theorem not_found_unless_owner_witness:
  "verified_as sample_env (request_to (Delete_tasks_id ''1'') (Some ''Bearer tokB''))
      \<lparr>user_id = 2, iat = 0, exp = 3600\<rparr>
   \<and> int4_in sample_env ''1'' = Some 1
   \<and> list_ex (\<lambda>r. task_id r = 1 \<and> tasks_user_id r = 1) (tasks sample_db)
   \<and> \<not> list_ex (\<lambda>r. task_id r = 1 \<and> tasks_user_id r = 2) (tasks sample_db)
   \<and> app sample_env (request_to (Delete_tasks_id ''1'') (Some ''Bearer tokB'')) sample_db
       = (status_json 404 (Json_error ''Task not found''), sample_db)
   \<and> app sample_env (request_to (Put_tasks_id ''1'') (Some ''Bearer tokB'')) sample_db
       = (status_json 404 (Json_error ''Task not found''), sample_db)
   \<and> fst (app sample_env (request_to (Delete_tasks_id ''1'') (Some ''Bearer tokA'')) sample_db)
       = json (Json_message ''Task deleted successfully'')"
proof -
  have vb: "verified_as sample_env (request_to r (Some ''Bearer tokB''))
      \<lparr>user_id = 2, iat = 0, exp = 3600\<rparr>" for r
    by (simp add: verified_as_def request_to_def sample_env_def extract_token_def truthy_def)
  have n: "int4_in sample_env ''1'' = Some 1"
    by (simp add: sample_env_def decimal_in_1)
  have a: "list_ex (\<lambda>r. task_id r = 1 \<and> tasks_user_id r = 1) (tasks sample_db)"
    by (simp add: sample_db_def)
  have b: "\<not> list_ex (\<lambda>r. task_id r = 1 \<and> tasks_user_id r = 2) (tasks sample_db)"
    by (simp add: sample_db_def)
  show ?thesis
    using not_found_unless_owner[OF vb n, where dl = None and db = sample_db
              and r1 = "Delete_tasks_id ''1''"]
          not_found_unless_owner[OF vb n, where dl = None and db = sample_db
              and r1 = "Put_tasks_id ''1''"]
          not_found_unless_owner[OF sample_verified_A n, where dl = None and db = sample_db
              and r1 = "Delete_tasks_id ''1''"]
          vb n a b
    by (simp add: request_to_def timestamp_param_def accepted_def)
qed

theorem login_outcomes_witness:
  "accepted (Some ''nobody@x.org'') \<and> accepted (Some ''a@x.org'')
   \<and> user_by_email sample_db (Some ''nobody@x.org'') = None
   \<and> app sample_env ((request_to Post_login None)
         \<lparr>body_email := Some ''nobody@x.org'', body_password := Some ''secretA''\<rparr>) sample_db
       = (status_json 400 (Json_error ''User not found''), sample_db)
   \<and> user_by_email sample_db (Some ''a@x.org'') = Some (hd (users sample_db))
   \<and> \<not> bcrypt_compare sample_env ''guess'' (users_password (hd (users sample_db)))
   \<and> app sample_env ((request_to Post_login None)
         \<lparr>body_email := Some ''a@x.org'', body_password := Some ''guess''\<rparr>) sample_db
       = (status_json 401 (Json_error ''Invalid password''), sample_db)
   \<and> bcrypt_compare sample_env ''secretA'' (users_password (hd (users sample_db)))
   \<and> app sample_env ((request_to Post_login None)
         \<lparr>body_email := Some ''a@x.org'', body_password := Some ''secretA''\<rparr>) sample_db
       = (json (Json_token (jwt_encode sample_env \<lparr>user_id = 1, iat = 0, exp = 3600\<rparr>)), sample_db)"
proof -
  have n: "user_by_email sample_db (Some ''nobody@x.org'') = None"
    by (simp add: user_by_email_def sample_db_def)
  have a: "user_by_email sample_db (Some ''a@x.org'') = Some (hd (users sample_db))"
    by (simp add: user_by_email_def sample_db_def)
  have g: "\<not> bcrypt_compare sample_env ''guess'' (users_password (hd (users sample_db)))"
    by (simp add: sample_env_def sample_db_def)
  have s: "bcrypt_compare sample_env ''secretA'' (users_password (hd (users sample_db)))"
    by (simp add: sample_env_def sample_db_def)
  have u: "users_user_id (hd (users sample_db)) = 1" "date_now sample_env = 0"
    by (simp_all add: sample_db_def sample_env_def)
  have c: "accepted (Some ''nobody@x.org'')" "accepted (Some ''a@x.org'')"
    by code_simp+
  show ?thesis
    using login_outcomes[of "(request_to Post_login None)
            \<lparr>body_email := Some ''nobody@x.org'', body_password := Some ''secretA''\<rparr>"
            sample_db sample_env]
          login_outcomes[of "(request_to Post_login None)
            \<lparr>body_email := Some ''a@x.org'', body_password := Some ''guess''\<rparr>"
            sample_db sample_env]
          login_outcomes[of "(request_to Post_login None)
            \<lparr>body_email := Some ''a@x.org'', body_password := Some ''secretA''\<rparr>"
            sample_db sample_env]
          n a g s u c
    by (simp add: request_to_def)
qed

end
